theory Spec2Isabelle
  imports Main "HOL-Library.Multiset"
begin

section \<open>JavaScript strings and thrown values\<close>

text \<open>
  Strings are ASCII character lists.  \<open>startsWith\<close>, \<open>endsWith\<close> and \<open>str_includes\<close> (\<^verbatim>\<open>includes\<close>) are the
  methods of \<^verbatim>\<open>String.prototype\<close> with those names; \<open>toLowerCase\<close> folds the letters
  \<^verbatim>\<open>A-Z\<close> only.
\<close>

type_synonym bytes = "nat list"

definition dq :: string where
  "dq = [CHR 0x22]"

definition sq :: string where
  "sq = [CHR 0x27]"

fun startsWith :: "string \<Rightarrow> string \<Rightarrow> bool" where
  "startsWith s [] = True"
| "startsWith [] (c # cs) = False"
| "startsWith (x # xs) (c # cs) = (x = c \<and> startsWith xs cs)"

definition endsWith :: "string \<Rightarrow> string \<Rightarrow> bool" where
  "endsWith s suf = startsWith (rev s) (rev suf)"

fun str_includes :: "string \<Rightarrow> string \<Rightarrow> bool" where
  "str_includes [] sub = (sub = [])"
| "str_includes (x # xs) sub = (startsWith (x # xs) sub \<or> str_includes xs sub)"

definition toLowerChar :: "char \<Rightarrow> char" where
  "toLowerChar c =
     (case map_of (zip ''ABCDEFGHIJKLMNOPQRSTUVWXYZ'' ''abcdefghijklmnopqrstuvwxyz'') c of
        None \<Rightarrow> c
      | Some d \<Rightarrow> d)"

definition toLowerCase :: "string \<Rightarrow> string" where
  "toLowerCase s = map toLowerChar s"

text \<open>\<^verbatim>\<open>Array.prototype.join\<close>.\<close>

fun join_with :: "string \<Rightarrow> string list \<Rightarrow> string" where
  "join_with sep [] = []"
| "join_with sep [x] = x"
| "join_with sep (x # y # r) = x @ sep @ join_with sep (y # r)"

text \<open>Decimal rendering of a number inside a template string.\<close>

definition digit_char :: "nat \<Rightarrow> char" where
  "digit_char d = ''0123456789'' ! d"

fun show_nat :: "nat \<Rightarrow> string" where
  "show_nat n = (if n < 10 then [digit_char n] else show_nat (n div 10) @ [digit_char (n mod 10)])"

declare show_nat.simps [simp del]

text \<open>
  A thrown value is an \<^verbatim>\<open>Error\<close> instance with its message, or any other value, kept as
  its string rendering.  \<open>exn_message\<close> is the expression
  \<^verbatim>\<open>error instanceof Error ? error.message : 'Unknown error'\<close>.
\<close>

datatype exn = Error string | NonError string

fun exn_message :: "exn \<Rightarrow> string" where
  "exn_message (Error m) = m"
| "exn_message (NonError v) = ''Unknown error''"

fun exn_toString :: "exn \<Rightarrow> string" where
  "exn_toString (Error m) = (if m = [] then ''Error'' else ''Error: '' @ m)"
| "exn_toString (NonError v) = v"

datatype 'a outcome = Ok 'a | Throw exn

section \<open>Node's POSIX path module\<close>

fun split_sep :: "string \<Rightarrow> string list" where
  "split_sep [] = [[]]"
| "split_sep (c # cs) =
     (if c = CHR ''/'' then [] # split_sep cs
      else (case split_sep cs of [] \<Rightarrow> [[c]] | seg # segs \<Rightarrow> (c # seg) # segs))"

definition norm_step :: "bool \<Rightarrow> string list \<Rightarrow> string \<Rightarrow> string list" where
  "norm_step allowAboveRoot res seg =
     (if seg = [] \<or> seg = ''.'' then res
      else if seg = ''..'' then
        (if res \<noteq> [] \<and> last res \<noteq> ''..'' then butlast res
         else if allowAboveRoot then res @ [''..''] else res)
      else res @ [seg])"

definition normalizeString :: "string \<Rightarrow> bool \<Rightarrow> string" where
  "normalizeString path allowAboveRoot =
     join_with ''/'' (foldl (norm_step allowAboveRoot) [] (split_sep path))"

definition path_normalize :: "string \<Rightarrow> string" where
  "path_normalize path =
     (if path = [] then ''.''
      else
        let isAbsolute = (hd path = CHR ''/'');
            trailingSeparator = (last path = CHR ''/'');
            p = normalizeString path (\<not> isAbsolute)
        in if p = [] then (if isAbsolute then ''/'' else if trailingSeparator then ''./'' else ''.'')
           else (let q = (if trailingSeparator then p @ ''/'' else p)
                 in if isAbsolute then ''/'' @ q else q))"

definition path_join :: "string list \<Rightarrow> string" where
  "path_join args =
     (let parts = filter (\<lambda>a. a \<noteq> []) args
      in if parts = [] then ''.'' else path_normalize (join_with ''/'' parts))"

definition path_basename :: "string \<Rightarrow> string" where
  "path_basename path =
     rev (takeWhile (\<lambda>c. c \<noteq> CHR ''/'') (dropWhile (\<lambda>c. c = CHR ''/'') (rev path)))"

definition path_dirname :: "string \<Rightarrow> string" where
  "path_dirname path =
     (if path = [] then ''.''
      else
        let hasRoot = (hd path = CHR ''/'');
            r = dropWhile (\<lambda>c. c \<noteq> CHR ''/'') (dropWhile (\<lambda>c. c = CHR ''/'') (rev (tl path)))
        in if r = [] then (if hasRoot then ''/'' else ''.'')
           else if hasRoot \<and> tl r = [] then ''//''
           else hd path # rev (tl r))"

section \<open>Configuration\<close>

text \<open>
  \<^verbatim>\<open>MediaShuttleConfig\<close> of \<^verbatim>\<open>media-shuttle.service.ts\<close>.  The values come from
  \<^verbatim>\<open>process.env\<close> unchecked, so a string field may be \<^verbatim>\<open>undefined\<close> at run time
  (\<open>None\<close>); \<open>headless\<close> and \<open>timeout\<close> are optional in the interface itself.
\<close>

record MediaShuttleConfig =
  url :: "string option"
  username :: "string option"
  password :: "string option"
  recipientEmail :: "string option"
  headless :: "bool option"
  timeout :: "int option"

text \<open>The object under the key \<^verbatim>\<open>mediaShuttle\<close> that the configuration factory builds.\<close>

record MediaShuttleSettings = MediaShuttleConfig +
  maxRetries :: int
  screenshotOnError :: bool

text \<open>
  \<^verbatim>\<open>Number(v) || d\<close>: the conversion \<^verbatim>\<open>Number\<close> is a parameter of the factory
  (\<open>None\<close> stands for \<^verbatim>\<open>NaN\<close>); \<^verbatim>\<open>NaN\<close> and \<^verbatim>\<open>0\<close> are falsy.
\<close>

definition number_or :: "int option \<Rightarrow> int \<Rightarrow> int" where
  "number_or n d = (case n of None \<Rightarrow> d | Some v \<Rightarrow> if v = 0 then d else v)"

definition mediaShuttleConfig ::
  "(string option \<Rightarrow> int option) \<Rightarrow> (string \<rightharpoonup> string) \<Rightarrow> MediaShuttleSettings" where
  "mediaShuttleConfig Number process_env =
     \<lparr> url = process_env ''MEDIA_SHUTTLE_URL'',
       username = process_env ''MEDIA_SHUTTLE_USERNAME'',
       password = process_env ''MEDIA_SHUTTLE_PASSWORD'',
       recipientEmail = process_env ''MEDIA_SHUTTLE_RECIPIENT_EMAIL'',
       headless = Some (process_env ''MEDIA_SHUTTLE_HEADLESS'' = Some ''true''),
       timeout = Some (number_or (Number (process_env ''MEDIA_SHUTTLE_TIMEOUT'')) 30000),
       maxRetries = number_or (Number (process_env ''MEDIA_SHUTTLE_MAX_RETRIES'')) 3,
       screenshotOnError = (process_env ''MEDIA_SHUTTLE_SCREENSHOT_ON_ERROR'' = Some ''true'') \<rparr>"

section \<open>The outside world: browser, file system, log\<close>

datatype Browser = Browser
datatype BrowserContext = BrowserContext
datatype Page = Page

text \<open>Every call that leaves the service: Playwright, \<^verbatim>\<open>fs\<close>.\<close>

datatype call =
    ChromiumLaunch bool "string list"
  | NewContext nat nat string
  | NewPage
  | SetDefaultTimeout int
  | Goto "string option"
  | WaitForLoadState string
  | LocatorFill string "string option"
  | RoleButtonClick string
  | WaitForSelector string string
  | IsVisible string
  | LocatorClick string
  | WaitForEvent string
  | SetFiles "string list"
  | WaitForFunction nat
  | TextContent string
  | Screenshot string bool
  | ContextClose
  | BrowserClose
  | WriteFileSync string bytes
  | UnlinkSync string
  | MkdirSync string bool

datatype level = Info | Warn | Err

datatype logarg = AnExn exn

text \<open>
  What a run leaves behind, in order: the entry of a method of the two services
  (\<open>Enter\<close>), a line of the logger, a call that left the service.
\<close>

datatype event =
    Enter string
  | Log level string "logarg option"
  | Ext call

datatype node = File bytes | Dir

record state =
  this_browser :: "Browser option"
  this_context :: "BrowserContext option"
  fs :: "string \<rightharpoonup> node"
  trace :: "event list"

text \<open>
  The answers of the outside world to one run.  \<open>fails c\<close> is the error call \<open>c\<close> throws
  or rejects with, if any; \<open>topText_samples\<close> are the states of the element
  \<^verbatim>\<open>#topText\<close> that the polling sees within its bound (\<open>None\<close>: no such element, \<open>Some None\<close>:
  its \<^verbatim>\<open>textContent\<close> is null); \<open>configService_get\<close> is
  \<^verbatim>\<open>configService.get('mediaShuttle')\<close>.
\<close>

record env =
  fails :: "call \<Rightarrow> exn option"
  isVisible_result :: "string \<Rightarrow> bool outcome"
  page_url :: string
  topText_samples :: "string option option list"
  textContent_result :: "string option outcome"
  configService_get :: "MediaShuttleSettings option"
  os_tmpdir :: string
  process_cwd :: string
  Date_now :: nat

section \<open>Control flow: await, throw, try, catch, finally\<close>

text \<open>
  A piece of code is a function from the state to its outcome and the new state.
  \<open>outcome_of\<close> runs a piece of code and hands its outcome over as a value; it serves
  where a \<^verbatim>\<open>catch\<close> or \<^verbatim>\<open>finally\<close> block reads local variables that the
  \<^verbatim>\<open>try\<close> block has set.
\<close>

type_synonym 'a io = "state \<Rightarrow> 'a outcome \<times> state"

definition io_return :: "'a \<Rightarrow> 'a io" where
  "io_return a s = (Ok a, s)"

definition io_throw :: "exn \<Rightarrow> 'a io" where
  "io_throw e s = (Throw e, s)"

definition io_bind :: "'a io \<Rightarrow> ('a \<Rightarrow> 'b io) \<Rightarrow> 'b io" where
  "io_bind m f s = (case m s of (Ok a, s1) \<Rightarrow> f a s1 | (Throw e, s1) \<Rightarrow> (Throw e, s1))"

fun block :: "unit io list \<Rightarrow> unit io" where
  "block [] = io_return ()"
| "block (m # ms) = io_bind m (\<lambda>_. block ms)"

definition try_catch :: "'a io \<Rightarrow> (exn \<Rightarrow> 'a io) \<Rightarrow> 'a io" where
  "try_catch m h s = (case m s of (Ok a, s1) \<Rightarrow> (Ok a, s1) | (Throw e, s1) \<Rightarrow> h e s1)"

definition try_finally :: "'a io \<Rightarrow> unit io \<Rightarrow> 'a io" where
  "try_finally m fin s =
     (case m s of (r, s1) \<Rightarrow>
        (case fin s1 of (Ok u, s2) \<Rightarrow> (r, s2) | (Throw e, s2) \<Rightarrow> (Throw e, s2)))"

definition outcome_of :: "'a io \<Rightarrow> 'a outcome io" where
  "outcome_of m s = (case m s of (r, s1) \<Rightarrow> (Ok r, s1))"

definition emit :: "event \<Rightarrow> unit io" where
  "emit ev s = (Ok (), s\<lparr>trace := trace s @ [ev]\<rparr>)"

definition logger_log :: "string \<Rightarrow> unit io" where
  "logger_log msg = emit (Log Info msg None)"

definition logger_warn :: "string \<Rightarrow> unit io" where
  "logger_warn msg = emit (Log Warn msg None)"

text \<open>\<^verbatim>\<open>logger.error(msg)\<close> and \<^verbatim>\<open>logger.error(msg, error)\<close>.\<close>

definition logger_error1 :: "string \<Rightarrow> unit io" where
  "logger_error1 msg = emit (Log Err msg None)"

definition logger_error :: "string \<Rightarrow> exn \<Rightarrow> unit io" where
  "logger_error msg e = emit (Log Err msg (Some (AnExn e)))"

text \<open>
  A call that leaves the service is recorded when it is made (\<open>emit (Ext c)\<close>) and
  settles as the outside world says (\<open>settled\<close>); \<open>ext\<close> is the awaited call.
\<close>

definition settled :: "env \<Rightarrow> call \<Rightarrow> unit io" where
  "settled E c = (case fails E c of None \<Rightarrow> io_return () | Some e \<Rightarrow> io_throw e)"

definition ext :: "env \<Rightarrow> call \<Rightarrow> unit io" where
  "ext E c = io_bind (emit (Ext c)) (\<lambda>_. settled E c)"

text \<open>The fields \<^verbatim>\<open>this.browser\<close> and \<^verbatim>\<open>this.context\<close> of the service.\<close>

definition assign_browser :: "Browser option \<Rightarrow> unit io" where
  "assign_browser b s = (Ok (), s\<lparr>this_browser := b\<rparr>)"

definition assign_context :: "BrowserContext option \<Rightarrow> unit io" where
  "assign_context c s = (Ok (), s\<lparr>this_context := c\<rparr>)"

definition read_browser :: "Browser option io" where
  "read_browser s = (Ok (this_browser s), s)"

definition read_context :: "BrowserContext option io" where
  "read_context s = (Ok (this_context s), s)"

section \<open>The file system\<close>

definition existsSync :: "string \<Rightarrow> bool io" where
  "existsSync p s = (Ok (fs s p \<noteq> None), s)"

text \<open>\<^verbatim>\<open>paths.every((p) => fs.existsSync(p))\<close>.\<close>

definition every_existsSync :: "string list \<Rightarrow> bool io" where
  "every_existsSync ps s = (Ok (list_all (\<lambda>p. fs s p \<noteq> None) ps), s)"

definition modify_fs :: "((string \<rightharpoonup> node) \<Rightarrow> (string \<rightharpoonup> node)) \<Rightarrow> unit io" where
  "modify_fs g s = (Ok (), s\<lparr>fs := g (fs s)\<rparr>)"

definition writeFileSync :: "env \<Rightarrow> string \<Rightarrow> bytes \<Rightarrow> unit io" where
  "writeFileSync E p d =
     io_bind (ext E (WriteFileSync p d)) (\<lambda>_. modify_fs (\<lambda>f. f(p \<mapsto> File d)))"

definition unlinkSync :: "env \<Rightarrow> string \<Rightarrow> unit io" where
  "unlinkSync E p =
     io_bind (ext E (UnlinkSync p)) (\<lambda>_.
     io_bind (existsSync p) (\<lambda>found.
       if \<not> found
       then io_throw (Error (''ENOENT: no such file or directory, unlink '' @ sq @ p @ sq))
       else modify_fs (\<lambda>f. f(p := None))))"

text \<open>\<^verbatim>\<open>mkdirSync(p, {recursive})\<close>; of the directories made, only \<open>p\<close> itself is recorded.\<close>

definition mkdirSync :: "env \<Rightarrow> string \<Rightarrow> bool \<Rightarrow> unit io" where
  "mkdirSync E p recursive =
     io_bind (ext E (MkdirSync p recursive)) (\<lambda>_. modify_fs (\<lambda>f. f(p \<mapsto> Dir)))"

section \<open>MediaShuttleService (media-shuttle.service.ts)\<close>

record MediaShuttleUploadResult =
  success :: bool
  message :: string
  uploadedFiles :: "string list option"
  error :: "string option"

definition launch_args :: "string list" where
  "launch_args =
     [''--no-sandbox'', ''--disable-setuid-sandbox'', ''--disable-dev-shm-usage'',
      ''--disable-web-security'', ''--allow-running-insecure-content'']"

definition userAgent :: string where
  "userAgent =
     ''Mozilla/5.0 (Windows NT 10.0; Win64; x64) AppleWebKit/537.36 (KHTML, like Gecko) Chrome/120.0.0.0 Safari/537.36''"

definition initializeBrowser :: "env \<Rightarrow> MediaShuttleConfig \<Rightarrow> Page io" where
  "initializeBrowser E config =
     io_bind (block
       [emit (Enter ''initializeBrowser''),
        logger_log ''Initializing browser...'',
        ext E (ChromiumLaunch False launch_args),
        assign_browser (Some Browser),
        ext E (NewContext 1280 720 userAgent),
        assign_context (Some BrowserContext),
        ext E NewPage,
        ext E (SetDefaultTimeout (case timeout config of None \<Rightarrow> 30000 | Some t \<Rightarrow> t)),
        ext E (Goto (url config))])
       (\<lambda>_. io_return Page)"

definition login :: "env \<Rightarrow> Page \<Rightarrow> MediaShuttleConfig \<Rightarrow> unit io" where
  "login E page config =
     block
       [emit (Enter ''login''),
        logger_log ''Attempting to login to Media Shuttle...'',
        try_catch
          (block
            [ext E (WaitForLoadState ''domcontentloaded''),
             ext E (LocatorFill ''#login-form-email'' (username config)),
             ext E (RoleButtonClick ''/next/i''),
             ext E (WaitForSelector ''#login-form-password'' ''state: visible''),
             ext E (LocatorFill ''#login-form-password'' (password config)),
             ext E (RoleButtonClick ''/login|sign in|submit/i''),
             ext E (WaitForLoadState ''networkidle''),
             (if str_includes (page_url E) ''login'' \<or> str_includes (page_url E) ''signin''
              then io_throw (Error ''Login failed - still on login page'')
              else io_return ()),
             logger_log ''Successfully logged in to Media Shuttle''])
          (\<lambda>error.
             block
               [logger_error ''Login failed:'' error,
                io_throw (Error (''Login failed: '' @ exn_message error))])]"

text \<open>
  The function that \<^verbatim>\<open>waitForFunction\<close> polls, on one state of \<^verbatim>\<open>#topText\<close>.  The browser
  evaluates it inside the page, where \<^verbatim>\<open>this\<close> is not the service object and
  \<^verbatim>\<open>this.logger\<close> is undefined: on a terminal marker the call of \<^verbatim>\<open>log\<close> throws a
  \<^verbatim>\<open>TypeError\<close>, so that \<^verbatim>\<open>return true\<close> is never reached, and the wait rejects with that
  error.  On every other state the function returns \<^verbatim>\<open>false\<close>.  If no state within the
  bound ends the wait, it rejects with a timeout unless the outside world names another
  error.
\<close>

definition topTextContent :: "string option \<Rightarrow> string" where
  "topTextContent textContent = (case textContent of None \<Rightarrow> [] | Some t \<Rightarrow> toLowerCase t)"

definition isCompleted :: "string \<Rightarrow> bool" where
  "isCompleted content =
     (str_includes content ''completed'' \<or> str_includes content ''success''
      \<or> str_includes content ''finished'')"

definition pageFunction :: "string option option \<Rightarrow> bool outcome" where
  "pageFunction topText =
     (case topText of
        None \<Rightarrow> Ok False
      | Some textContent \<Rightarrow>
          if isCompleted (topTextContent textContent)
          then Throw (Error (''Cannot read properties of undefined (reading '' @ sq @ ''log''
                             @ sq @ '')''))
          else Ok False)"

definition monitorTransferProgress :: "env \<Rightarrow> Page \<Rightarrow> unit io" where
  "monitorTransferProgress E page =
     block
       [emit (Enter ''monitorTransferProgress''),
        emit (Ext (WaitForFunction 300000)),
        (case find (\<lambda>topText. pageFunction topText \<noteq> Ok False) (topText_samples E) of
           None \<Rightarrow>
             io_throw (case fails E (WaitForFunction 300000) of
                         None \<Rightarrow> Error ''page.waitForFunction: Timeout 300000ms exceeded.''
                       | Some e \<Rightarrow> e)
         | Some topText \<Rightarrow>
             (case pageFunction topText of
                Ok b \<Rightarrow> io_return ()
              | Throw e \<Rightarrow> io_throw e))]"

definition error_selector :: string where
  "error_selector =
     ''.error, .upload-error, [data-testid*='' @ dq @ ''error'' @ dq @ ''], #transferStatus''"

text \<open>\<^verbatim>\<open>locator.first().textContent().catch(() => null)\<close>.\<close>

definition textContent_or_null :: "env \<Rightarrow> string \<Rightarrow> string option io" where
  "textContent_or_null E sel =
     io_bind (emit (Ext (TextContent sel))) (\<lambda>_.
       io_return (case textContent_result E of Ok v \<Rightarrow> v | Throw e \<Rightarrow> None))"

definition waitForUploadCompletion :: "env \<Rightarrow> Page \<Rightarrow> unit io" where
  "waitForUploadCompletion E page =
     block
       [emit (Enter ''waitForUploadCompletion''),
        logger_log ''Waiting for Media Shuttle transfer completion...'',
        try_catch
          (block
            [ext E (WaitForSelector ''#transferProgressDetails'' ''timeout: 10000''),
             logger_log ''Transfer progress details found, monitoring completion...'',
             monitorTransferProgress E page,
             logger_log ''Media Shuttle transfer completed successfully''])
          (\<lambda>_.
             io_bind
               (logger_warn ''Could not detect transfer completion, checking for error messages...'')
               (\<lambda>_. io_bind (textContent_or_null E error_selector) (\<lambda>errorMessage.
                  case errorMessage of
                    None \<Rightarrow> logger_log ''No error detected, assuming transfer completed''
                  | Some m \<Rightarrow>
                      if m \<noteq> [] \<and> str_includes (toLowerCase m) ''error''
                      then io_throw (Error (''Transfer failed: '' @ m))
                      else logger_log ''No error detected, assuming transfer completed'')))]"

text \<open>\<^verbatim>\<open>locator.isVisible().catch(() => false)\<close>.\<close>

definition isVisible_or_false :: "env \<Rightarrow> string \<Rightarrow> bool io" where
  "isVisible_or_false E sel =
     io_bind (emit (Ext (IsVisible sel))) (\<lambda>_.
       io_return (case isVisible_result E sel of Ok v \<Rightarrow> v | Throw e \<Rightarrow> False))"

definition recipient_selector :: string where
  "recipient_selector = ''input[title='' @ dq @ ''To'' @ dq @ '']''"

definition performUpload :: "env \<Rightarrow> Page \<Rightarrow> string list \<Rightarrow> MediaShuttleConfig \<Rightarrow> unit io" where
  "performUpload E page filePaths config =
     block
       [emit (Enter ''performUpload''),
        logger_log ''Starting file upload process...'',
        try_catch
          (block
            [io_bind (isVisible_or_false E ''#mst-no-software-btn'') (\<lambda>visible.
               if visible
               then block
                      [logger_log (''Found '' @ dq @ ''Transfer Without App'' @ dq @ '' button, clicking it...''),
                       ext E (LocatorClick ''#mst-no-software-btn'')]
               else io_return ()),
             io_bind (isVisible_or_false E recipient_selector) (\<lambda>visible.
               if visible then ext E (LocatorFill recipient_selector (recipientEmail config))
               else io_return ()),
             io_bind (isVisible_or_false E ''#addFilesButton'') (\<lambda>visible.
               if visible
               then block
                      [emit (Ext (WaitForEvent ''filechooser'')),
                       ext E (LocatorClick ''#addFilesButton''),
                       settled E (WaitForEvent ''filechooser''),
                       ext E (SetFiles filePaths),
                       io_bind (isVisible_or_false E ''#transferButton'') (\<lambda>visible.
                         if visible then ext E (LocatorClick ''#transferButton'')
                         else io_return ())]
               else io_return ()),
             waitForUploadCompletion E page])
          (\<lambda>error.
             block
               [logger_error ''Upload process failed:'' error,
                io_throw (Error (''Upload failed: '' @ exn_message error))])]"

definition screenshotPath :: "env \<Rightarrow> string" where
  "screenshotPath E =
     path_join [process_cwd E, ''logs'', ''media-shuttle-error-'' @ show_nat (Date_now E) @ ''.png'']"

definition captureErrorScreenshot :: "env \<Rightarrow> Page \<Rightarrow> unit io" where
  "captureErrorScreenshot E page =
     block
       [emit (Enter ''captureErrorScreenshot''),
        try_catch
          (block
            [io_bind (existsSync (path_dirname (screenshotPath E))) (\<lambda>found.
               if \<not> found then mkdirSync E (path_dirname (screenshotPath E)) True
               else io_return ()),
             ext E (Screenshot (screenshotPath E) True),
             logger_log (''Error screenshot saved: '' @ screenshotPath E)])
          (\<lambda>screenshotError. logger_error ''Failed to capture error screenshot:'' screenshotError)]"

definition cleanup :: "env \<Rightarrow> unit io" where
  "cleanup E =
     block
       [emit (Enter ''cleanup''),
        try_catch
          (block
            [io_bind read_context (\<lambda>c.
               if c \<noteq> None then block [ext E ContextClose, assign_context None]
               else io_return ()),
             io_bind read_browser (\<lambda>b.
               if b \<noteq> None then block [ext E BrowserClose, assign_browser None]
               else io_return ())])
          (\<lambda>error. logger_error ''Error during cleanup:'' error)]"

text \<open>
  The \<^verbatim>\<open>try\<close> block of \<^verbatim>\<open>uploadToMediaShuttle\<close>.  It hands over its outcome together
  with the value the local variable \<^verbatim>\<open>page\<close> has when the block is left: the variable
  is assigned only once \<open>initializeBrowser\<close> has returned.
\<close>

definition upload_attempt ::
  "env \<Rightarrow> string list \<Rightarrow> MediaShuttleConfig
     \<Rightarrow> (MediaShuttleUploadResult outcome \<times> Page option) io" where
  "upload_attempt E filePaths config =
     io_bind (every_existsSync filePaths) (\<lambda>found.
       if \<not> found
       then io_return (Throw (Error (''Files not found: '' @ join_with '', '' filePaths)), None)
       else
         io_bind
           (outcome_of
             (io_bind
               (logger_log (''Starting Media Shuttle upload for files: ''
                            @ join_with '', '' filePaths))
               (\<lambda>_. initializeBrowser E config))) (\<lambda>r.
         case r of
           Throw e \<Rightarrow> io_return (Throw e, None)
         | Ok page \<Rightarrow>
             io_bind
               (outcome_of
                 (block
                   [login E page config,
                    performUpload E page filePaths config,
                    logger_log ''Media Shuttle upload completed successfully''])) (\<lambda>r.
             case r of
               Throw e \<Rightarrow> io_return (Throw e, Some page)
             | Ok u \<Rightarrow>
                 io_return
                   (Ok \<lparr> success = True,
                         message = ''File uploaded to Media Shuttle successfully'',
                         uploadedFiles = Some (map path_basename filePaths),
                         error = None \<rparr>,
                    Some page))))"

text \<open>The \<^verbatim>\<open>catch\<close> block of \<^verbatim>\<open>uploadToMediaShuttle\<close>.\<close>

definition upload_failed :: "env \<Rightarrow> Page option \<Rightarrow> exn \<Rightarrow> MediaShuttleUploadResult io" where
  "upload_failed E page e =
     io_bind (logger_error ''Media Shuttle upload failed:'' e) (\<lambda>_.
     io_bind (case page of None \<Rightarrow> io_return () | Some p \<Rightarrow> captureErrorScreenshot E p) (\<lambda>_.
     io_return \<lparr> success = False,
                 message = ''Failed to upload to Media Shuttle'',
                 uploadedFiles = None,
                 error = Some (exn_message e) \<rparr>))"

definition uploadToMediaShuttle ::
  "env \<Rightarrow> string list \<Rightarrow> MediaShuttleConfig \<Rightarrow> MediaShuttleUploadResult io" where
  "uploadToMediaShuttle E filePaths config =
     io_bind (emit (Enter ''uploadToMediaShuttle'')) (\<lambda>_.
       try_finally
         (io_bind (upload_attempt E filePaths config) (\<lambda>(r, page).
            case r of
              Ok result \<Rightarrow> io_return result
            | Throw e \<Rightarrow> upload_failed E page e))
         (cleanup E))"

section \<open>MayoUploaderService (mayo-uploader.service.ts)\<close>

text \<open>
  Modelled from the spec: the interface \<^verbatim>\<open>FileData\<close> (\<^verbatim>\<open>file-downloader.interface\<close>),
  whose declaration is not among the sources.  The inbound records are
  \<^verbatim>\<open>{fileName, filePath, type, data: byte buffer, updatedAt: timestamp}\<close>; \<open>data\<close> is
  \<open>None\<close> when the byte content is missing.
\<close>

record FileData =
  fileName :: string
  filePath :: string
  fileType :: string
  data :: "bytes option"
  updatedAt :: int

text \<open>
  Modelled from the spec: the interface \<^verbatim>\<open>UploadResult\<close> of
  \<^verbatim>\<open>file-uploader.interface\<close> (the per-file result), whose declaration is not among the
  sources: \<^verbatim>\<open>{file name, success: bool, skipped: bool, error message (optional)}\<close>.  The
  fields carry the prefix \<open>r_\<close>; an absent field is \<open>None\<close>.
\<close>

record UploadResult =
  r_fileName :: string
  r_success :: bool
  r_skipped :: "bool option"
  r_errorMessage :: "string option"

definition is_report :: "FileData \<Rightarrow> bool" where
  "is_report file = endsWith (fileName file) ''_Report.docx''"

definition skipped_result :: "FileData \<Rightarrow> UploadResult" where
  "skipped_result file =
     \<lparr> r_fileName = fileName file, r_success = True, r_skipped = Some True, r_errorMessage = None \<rparr>"

definition uploaded_result :: "FileData \<Rightarrow> UploadResult" where
  "uploaded_result file =
     \<lparr> r_fileName = fileName file, r_success = True, r_skipped = None, r_errorMessage = None \<rparr>"

definition failed_result :: "string \<Rightarrow> FileData \<Rightarrow> UploadResult" where
  "failed_result errorMessage file =
     \<lparr> r_fileName = fileName file, r_success = False, r_skipped = None,
       r_errorMessage = Some errorMessage \<rparr>"

definition getMediaShuttleConfig :: "env \<Rightarrow> MediaShuttleConfig io" where
  "getMediaShuttleConfig E =
     (case configService_get E of
        None \<Rightarrow> io_throw (Error ''Media Shuttle configuration not found'')
      | Some config \<Rightarrow>
          io_return \<lparr> url = url config, username = username config, password = password config,
                      recipientEmail = recipientEmail config, headless = headless config,
                      timeout = timeout config \<rparr>)"

definition tempFilePath :: "env \<Rightarrow> FileData \<Rightarrow> string" where
  "tempFilePath E file = path_join [os_tmpdir E, fileName file]"

text \<open>
  The staging loop, with the array \<^verbatim>\<open>tempFilePaths\<close> it fills.  The array is handed
  over also when the loop throws, since the \<^verbatim>\<open>finally\<close> block reads it.
\<close>

fun stageFiles ::
  "env \<Rightarrow> FileData list \<Rightarrow> string list \<Rightarrow> (unit outcome \<times> string list) io" where
  "stageFiles E [] tempFilePaths = io_return (Ok (), tempFilePaths)"
| "stageFiles E (file # rest) tempFilePaths =
     (case data file of
        None \<Rightarrow>
          io_return (Throw (Error (''File data is missing for '' @ fileName file)), tempFilePaths)
      | Some d \<Rightarrow>
          io_bind (outcome_of (writeFileSync E (tempFilePath E file) d)) (\<lambda>r.
          case r of
            Throw e \<Rightarrow> io_return (Throw e, tempFilePaths)
          | Ok u \<Rightarrow>
              io_bind (logger_log (''[MAYO] Created temp file: '' @ fileName file)) (\<lambda>_.
              stageFiles E rest (tempFilePaths @ [tempFilePath E file]))))"

text \<open>\<^verbatim>\<open>uploadResult.error || 'Batch upload failed'\<close>.\<close>

definition error_or_default :: "string option \<Rightarrow> string" where
  "error_or_default e =
     (case e of None \<Rightarrow> ''Batch upload failed''
      | Some m \<Rightarrow> if m = [] then ''Batch upload failed'' else m)"

text \<open>What the \<^verbatim>\<open>try\<close> block of \<^verbatim>\<open>upload\<close> does once the files are staged.\<close>

definition upload_batch ::
  "env \<Rightarrow> FileData list \<Rightarrow> string list \<Rightarrow> MediaShuttleConfig \<Rightarrow> UploadResult list io" where
  "upload_batch E reportFiles tempFilePaths config =
     io_bind
       (logger_log (''[MAYO] Starting batch upload of ''
                    @ show_nat (length tempFilePaths) @ '' files'')) (\<lambda>_.
     io_bind (uploadToMediaShuttle E tempFilePaths config) (\<lambda>uploadResult.
       if success uploadResult
       then io_bind
              (logger_log (''[MAYO] Successfully uploaded all ''
                           @ show_nat (length reportFiles) @ '' report files''))
              (\<lambda>_. io_return (map uploaded_result reportFiles))
       else io_bind
              (logger_error1 (''[MAYO] Batch upload failed: ''
                              @ error_or_default (error uploadResult)))
              (\<lambda>_. io_return
                      (map (failed_result (error_or_default (error uploadResult))) reportFiles))))"

text \<open>The \<^verbatim>\<open>finally\<close> block of \<^verbatim>\<open>upload\<close>: the body of its loop, and the loop.\<close>

definition cleanupTempFile :: "env \<Rightarrow> string \<Rightarrow> unit io" where
  "cleanupTempFile E p =
     try_catch
       (io_bind (existsSync p) (\<lambda>found.
          if found
          then block [unlinkSync E p,
                      logger_log (''[MAYO] Cleaned up temp file: '' @ path_basename p)]
          else io_return ()))
       (\<lambda>cleanupError.
          logger_warn (''[MAYO] Failed to cleanup temp file '' @ path_basename p @ '': ''
                       @ exn_toString cleanupError))"

fun cleanupTempFiles :: "env \<Rightarrow> string list \<Rightarrow> unit io" where
  "cleanupTempFiles E [] = io_return ()"
| "cleanupTempFiles E (p # ps) = io_bind (cleanupTempFile E p) (\<lambda>_. cleanupTempFiles E ps)"

text \<open>The \<^verbatim>\<open>try\<close>/\<^verbatim>\<open>catch\<close>/\<^verbatim>\<open>finally\<close> statement of \<^verbatim>\<open>upload\<close>.\<close>

definition upload_staged ::
  "env \<Rightarrow> FileData list \<Rightarrow> MediaShuttleConfig \<Rightarrow> UploadResult list io" where
  "upload_staged E reportFiles config =
     io_bind (stageFiles E reportFiles []) (\<lambda>(staged, tempFilePaths).
       try_finally
         (try_catch
            (case staged of
               Throw e \<Rightarrow> io_throw e
             | Ok u \<Rightarrow> upload_batch E reportFiles tempFilePaths config)
            (\<lambda>error.
               io_bind
                 (logger_error1 (''[MAYO] Failed to upload files: '' @ exn_message error))
                 (\<lambda>_. io_return (map (failed_result (exn_message error)) reportFiles))))
         (cleanupTempFiles E tempFilePaths))"

text \<open>The last line that \<^verbatim>\<open>upload\<close> logs.\<close>

definition upload_summary ::
  "FileData list \<Rightarrow> FileData list \<Rightarrow> FileData list \<Rightarrow> UploadResult list \<Rightarrow> string" where
  "upload_summary files reportFiles skippedFiles results =
     ''[MAYO] Upload completed: ''
     @ show_nat (length (filter r_success results)) @ ''/''
     @ show_nat (length files) @ '' files succeeded (''
     @ show_nat (length reportFiles) @ '' uploaded, ''
     @ show_nat (length skippedFiles) @ '' skipped)''"

definition upload :: "env \<Rightarrow> FileData list \<Rightarrow> UploadResult list io" where
  "upload E files =
     (let reportFiles = filter is_report files;
          skippedFiles = filter (\<lambda>file. \<not> is_report file) files
      in
      io_bind (block
        [emit (Enter ''upload''),
         logger_log (''[MAYO] Uploading '' @ show_nat (length files) @ '' files via Media Shuttle''),
         (if length skippedFiles > 0
          then logger_log (''[MAYO] Skipping '' @ show_nat (length skippedFiles)
                           @ '' non-report files: '' @ join_with '', '' (map fileName skippedFiles))
          else io_return ())]) (\<lambda>_.
      if length reportFiles = 0
      then io_bind
             (logger_log (''[MAYO] No files ending with '' @ sq @ ''_Report.docx'' @ sq
                          @ '' found. Skipping upload.''))
             (\<lambda>_. io_return (map skipped_result skippedFiles))
      else
        io_bind
          (logger_log (''[MAYO] Uploading '' @ show_nat (length reportFiles)
                       @ '' report files (filtered from '' @ show_nat (length files)
                       @ '' total files)'')) (\<lambda>_.
        io_bind (getMediaShuttleConfig E) (\<lambda>mediaShuttleConfig.
        io_bind (upload_staged E reportFiles mediaShuttleConfig) (\<lambda>results0.
        let results = results0 @ map skipped_result skippedFiles
        in io_bind
             (logger_log (upload_summary files reportFiles skippedFiles results))
             (\<lambda>_. io_return results))))))"

section \<open>Properties of runs\<close>

text \<open>
  \<open>events_of m s\<close> is what the run of \<open>m\<close> from \<open>s\<close> adds to the trace.  \<open>emits P m\<close>:
  every run of \<open>m\<close> only adds events that satisfy \<open>P\<close>.  \<open>no_throw m\<close>: no run of \<open>m\<close>
  throws.  An event is \<open>ordinary\<close> unless it is the entry of \<open>cleanup\<close> or of
  \<open>captureErrorScreenshot\<close>, the line that the \<^verbatim>\<open>catch\<close> block of
  \<open>uploadToMediaShuttle\<close> logs, or a browser launch.  \<open>failure_result\<close> and
  \<open>success_result\<close> are the two objects that \<open>uploadToMediaShuttle\<close> returns.
\<close>

definition emits :: "(event \<Rightarrow> bool) \<Rightarrow> 'a io \<Rightarrow> bool" where
  "emits P m = (\<forall>s. \<exists>es. trace (snd (m s)) = trace s @ es \<and> list_all P es)"

definition no_throw :: "'a io \<Rightarrow> bool" where
  "no_throw m = (\<forall>s. \<exists>a. fst (m s) = Ok a)"

definition events_of :: "'a io \<Rightarrow> state \<Rightarrow> event list" where
  "events_of m s = drop (length (trace s)) (trace (snd (m s)))"

definition ordinary :: "event \<Rightarrow> bool" where
  "ordinary ev =
     (case ev of
        Enter n \<Rightarrow> n \<noteq> ''cleanup'' \<and> n \<noteq> ''captureErrorScreenshot''
      | Log l m a \<Rightarrow> \<not> (l = Err \<and> m = ''Media Shuttle upload failed:'')
      | Ext c \<Rightarrow> (case c of ChromiumLaunch h a \<Rightarrow> False | _ \<Rightarrow> True))"

definition failure_result :: "exn \<Rightarrow> MediaShuttleUploadResult" where
  "failure_result e =
     \<lparr> success = False, message = ''Failed to upload to Media Shuttle'',
       uploadedFiles = None, error = Some (exn_message e) \<rparr>"



section \<open>Example inputs\<close>

text \<open>
  A portal on which every step succeeds and whose status text reaches a terminal marker,
  an empty file system, and one on which a report has been staged.
\<close>

definition example_settings :: MediaShuttleSettings where
  "example_settings =
     mediaShuttleConfig (\<lambda>v. None)
       [''MEDIA_SHUTTLE_URL'' \<mapsto> ''https://portal.example.org/send'',
        ''MEDIA_SHUTTLE_USERNAME'' \<mapsto> ''mayo@example.org'',
        ''MEDIA_SHUTTLE_PASSWORD'' \<mapsto> ''secret'',
        ''MEDIA_SHUTTLE_RECIPIENT_EMAIL'' \<mapsto> ''lab@example.org'',
        ''MEDIA_SHUTTLE_HEADLESS'' \<mapsto> ''true'']"

definition example_config :: MediaShuttleConfig where
  "example_config =
     \<lparr> url = url example_settings, username = username example_settings,
       password = password example_settings, recipientEmail = recipientEmail example_settings,
       headless = headless example_settings, timeout = timeout example_settings \<rparr>"

definition example_env :: env where
  "example_env =
     \<lparr> fails = (\<lambda>c. None),
       isVisible_result = (\<lambda>sel. Ok True),
       page_url = ''https://portal.example.org/send'',
       topText_samples = [None, Some (Some ''Uploading''), Some (Some ''Transfer Completed'')],
       textContent_result = Ok None,
       configService_get = Some example_settings,
       os_tmpdir = ''/tmp'',
       process_cwd = ''/app'',
       Date_now = 1700000000000 \<rparr>"

definition example_state :: state where
  "example_state = \<lparr> this_browser = None, this_context = None, fs = Map.empty, trace = [] \<rparr>"

definition staged_state :: state where
  "staged_state = example_state\<lparr>fs := [''/tmp/x_Report.docx'' \<mapsto> File [1, 2, 3]]\<rparr>"

text \<open>A portal whose progress details never appear and that shows an error text.\<close>

definition stalled_env :: env where
  "stalled_env =
     example_env
       \<lparr> fails := (\<lambda>c. if c = WaitForSelector ''#transferProgressDetails'' ''timeout: 10000''
                         then Some (Error ''page.waitForSelector: Timeout 10000ms exceeded.'')
                         else None),
         textContent_result := Ok (Some ''Upload error: quota exceeded'') \<rparr>"

text \<open>
  A portal whose status text reaches a terminal marker while its error element reads
  \<^verbatim>\<open>No errors\<close>.
\<close>

definition marker_error_env :: env where
  "marker_error_env = example_env\<lparr>textContent_result := Ok (Some ''No errors'')\<rparr>"

text \<open>
  A host on which the browser cannot be launched; a portal whose \<^verbatim>\<open>Next\<close> button never
  answers and on which the screenshot fails as well; the same portal on a host on which
  the directory of the screenshots cannot be made; and a service object that still holds
  a browser but no context.
\<close>

definition launch_failing_env :: env where
  "launch_failing_env =
     example_env
       \<lparr> fails := (\<lambda>c. if c = ChromiumLaunch False launch_args
                         then Some (Error ''browserType.launch: Failed to launch chromium'')
                         else None) \<rparr>"

definition login_failing_env :: env where
  "login_failing_env =
     example_env
       \<lparr> fails := (\<lambda>c. if c = RoleButtonClick ''/next/i''
                           \<or> c = Screenshot ''/app/logs/media-shuttle-error-1700000000000.png'' True
                         then Some (Error ''Timeout 30000ms exceeded.'')
                         else None) \<rparr>"

definition mkdir_failing_env :: env where
  "mkdir_failing_env =
     example_env
       \<lparr> fails := (\<lambda>c. if c = RoleButtonClick ''/next/i''
                         then Some (Error ''Timeout 30000ms exceeded.'')
                         else if c = MkdirSync ''/app/logs'' True
                         then Some (Error ''EACCES: permission denied, mkdir'')
                         else None) \<rparr>"

definition half_open_state :: state where
  "half_open_state = example_state\<lparr>this_browser := Some Browser\<rparr>"

text \<open>
  Three abbreviations for what \<open>upload\<close> computes on the way: \<open>batch_results\<close> is what it
  pushes for the report files in the two branches on \<^verbatim>\<open>uploadResult.success\<close>,
  \<open>prelude_events\<close> is what it has logged when it reads the configuration (or returns, when
  no file is a report), and \<open>config_of\<close> is the object that \<open>getMediaShuttleConfig\<close> builds
  from the settings.
\<close>

definition batch_results :: "MediaShuttleUploadResult \<Rightarrow> FileData list \<Rightarrow> UploadResult list" where
  "batch_results r reportFiles =
     (if success r then map uploaded_result reportFiles
      else map (failed_result (error_or_default (error r))) reportFiles)"

definition prelude_events :: "FileData list \<Rightarrow> event list" where
  "prelude_events files =
     [Enter ''upload'',
      Log Info (''[MAYO] Uploading '' @ show_nat (length files) @ '' files via Media Shuttle'') None]
     @ (if length (filter (\<lambda>file. \<not> is_report file) files) > 0
        then [Log Info (''[MAYO] Skipping ''
                        @ show_nat (length (filter (\<lambda>file. \<not> is_report file) files))
                        @ '' non-report files: ''
                        @ join_with '', '' (map fileName (filter (\<lambda>file. \<not> is_report file) files)))
                None]
        else [])
     @ [if length (filter is_report files) = 0
        then Log Info (''[MAYO] No files ending with '' @ sq @ ''_Report.docx'' @ sq
                       @ '' found. Skipping upload.'') None
        else Log Info (''[MAYO] Uploading '' @ show_nat (length (filter is_report files))
                       @ '' report files (filtered from '' @ show_nat (length files)
                       @ '' total files)'') None]"

definition config_of :: "MediaShuttleSettings \<Rightarrow> MediaShuttleConfig" where
  "config_of c =
     \<lparr> url = url c, username = username c, password = password c,
       recipientEmail = recipientEmail c, headless = headless c, timeout = timeout c \<rparr>"

text \<open>
  Files: a report, a file that is not one, a report without content, and a second report
  of the same name as the first.  Environments: one without the \<^verbatim>\<open>mediaShuttle\<close> settings
  and one on which the staged report cannot be unlinked.
\<close>

definition example_report :: FileData where
  "example_report =
     \<lparr> fileName = ''x_Report.docx'', filePath = ''mayo/input/x_Report.docx'', fileType = ''MAYO'',
       data = Some [1, 2, 3], updatedAt = 0 \<rparr>"

definition example_notes :: FileData where
  "example_notes =
     \<lparr> fileName = ''notes.txt'', filePath = ''mayo/input/notes.txt'', fileType = ''MAYO'',
       data = Some [4, 5], updatedAt = 0 \<rparr>"

definition unconfigured_env :: env where
  "unconfigured_env = example_env\<lparr>configService_get := None\<rparr>"

text \<open>
  A \<open>file_event\<close> is the entry of \<open>upload\<close>, a log line without an argument, or a write or
  an unlink: none of the browser, and no entry of a method of \<open>MediaShuttleService\<close>.
\<close>

definition file_event :: "event \<Rightarrow> bool" where
  "file_event ev =
     (case ev of
        Enter n \<Rightarrow> n = ''upload''
      | Log l m a \<Rightarrow> a = None
      | Ext c \<Rightarrow> (case c of WriteFileSync p d \<Rightarrow> True | UnlinkSync p \<Rightarrow> True | _ \<Rightarrow> False))"

definition example_empty_report :: FileData where
  "example_empty_report =
     \<lparr> fileName = ''y_Report.docx'', filePath = ''mayo/input/y_Report.docx'', fileType = ''MAYO'',
       data = None, updatedAt = 0 \<rparr>"

definition unlink_failing_env :: env where
  "unlink_failing_env =
     example_env
       \<lparr> fails := (\<lambda>c. if c = UnlinkSync ''/tmp/x_Report.docx''
                         then Some (Error ''EPERM: operation not permitted, unlink'')
                         else None) \<rparr>"

text \<open>
  \<open>path_prefix dir\<close> is what \<^verbatim>\<open>path.join(dir, name)\<close> puts before a \<open>name\<close> that has no
  separator and is neither empty nor a dot segment.
\<close>

definition path_prefix :: "string \<Rightarrow> string" where
  "path_prefix dir =
     (if dir = [] then []
      else
        let stack = foldl (norm_step (hd dir \<noteq> CHR ''/'')) [] (split_sep dir)
        in (if hd dir = CHR ''/'' then ''/'' else [])
           @ (if stack = [] then [] else join_with ''/'' stack @ ''/''))"

definition example_report_twin :: FileData where
  "example_report_twin = example_report\<lparr>data := Some [9]\<rparr>"



text \<open>A third report, and a host on which it cannot be written.\<close>

definition example_report_z :: FileData where
  "example_report_z =
     \<lparr> fileName = ''z_Report.docx'', filePath = ''mayo/input/z_Report.docx'', fileType = ''MAYO'',
       data = Some [7], updatedAt = 0 \<rparr>"

definition write_failing_env :: env where
  "write_failing_env =
     example_env
       \<lparr> fails := (\<lambda>c. if c = WriteFileSync ''/tmp/z_Report.docx'' [7]
                         then Some (Error ''ENOSPC: no space left on device, write'')
                         else None) \<rparr>"

section \<open>Events, outcomes and the control-flow combinators\<close>

lemma emitsI: "(\<And>s. \<exists>es. trace (snd (m s)) = trace s @ es \<and> list_all P es) \<Longrightarrow> emits P m"
  by (simp add: emits_def)

lemma emitsD: "emits P m \<Longrightarrow> \<exists>es. trace (snd (m s)) = trace s @ es \<and> list_all P es"
  by (simp add: emits_def)

lemma emits_mono: "emits P m \<Longrightarrow> (\<And>ev. P ev \<Longrightarrow> Q ev) \<Longrightarrow> emits Q m"
  unfolding emits_def list_all_iff by blast

lemma emits_return: "emits P (io_return a)"
  by (simp add: emits_def io_return_def)

lemma emits_throw: "emits P (io_throw e)"
  by (simp add: emits_def io_throw_def)

lemma emits_bind:
  assumes "emits P m" and "\<And>a. emits P (f a)"
  shows "emits P (io_bind m f)"
proof (rule emitsI)
  fix s
  obtain r s1 where ms: "m s = (r, s1)" by (cases "m s")
  from emitsD[OF assms(1), of s] ms obtain es1 where
    e1: "trace s1 = trace s @ es1" "list_all P es1" by auto
  show "\<exists>es. trace (snd (io_bind m f s)) = trace s @ es \<and> list_all P es"
  proof (cases r)
    case (Ok a)
    from emitsD[OF assms(2), of a s1] obtain es2 where
      e2: "trace (snd (f a s1)) = trace s1 @ es2" "list_all P es2" by auto
    with e1 ms Ok show ?thesis by (auto simp: io_bind_def)
  next
    case (Throw e)
    with e1 ms show ?thesis by (auto simp: io_bind_def)
  qed
qed

lemma emits_try_catch:
  assumes "emits P m" and "\<And>e. emits P (h e)"
  shows "emits P (try_catch m h)"
proof (rule emitsI)
  fix s
  obtain r s1 where ms: "m s = (r, s1)" by (cases "m s")
  from emitsD[OF assms(1), of s] ms obtain es1 where
    e1: "trace s1 = trace s @ es1" "list_all P es1" by auto
  show "\<exists>es. trace (snd (try_catch m h s)) = trace s @ es \<and> list_all P es"
  proof (cases r)
    case (Ok a)
    with e1 ms show ?thesis by (auto simp: try_catch_def)
  next
    case (Throw e)
    from emitsD[OF assms(2), of e s1] obtain es2 where
      e2: "trace (snd (h e s1)) = trace s1 @ es2" "list_all P es2" by auto
    with e1 ms Throw show ?thesis by (auto simp: try_catch_def)
  qed
qed

lemma emits_try_finally:
  assumes "emits P m" and "emits P fin"
  shows "emits P (try_finally m fin)"
proof (rule emitsI)
  fix s
  obtain r s1 where ms: "m s = (r, s1)" by (cases "m s")
  from emitsD[OF assms(1), of s] ms obtain es1 where
    e1: "trace s1 = trace s @ es1" "list_all P es1" by auto
  obtain r2 s2 where fs: "fin s1 = (r2, s2)" by (cases "fin s1")
  from emitsD[OF assms(2), of s1] fs obtain es2 where
    e2: "trace s2 = trace s1 @ es2" "list_all P es2" by auto
  from e1 e2 ms fs show "\<exists>es. trace (snd (try_finally m fin s)) = trace s @ es \<and> list_all P es"
    by (cases r2) (auto simp: try_finally_def)
qed

lemma snd_outcome_of: "snd (outcome_of m s) = snd (m s)"
  by (simp add: outcome_of_def split: prod.splits)

lemma emits_outcome_of: "emits P m \<Longrightarrow> emits P (outcome_of m)"
  by (simp add: emits_def snd_outcome_of)

lemma emits_emit: "P ev \<Longrightarrow> emits P (emit ev)"
  by (simp add: emits_def emit_def)

lemma emits_settled: "emits P (settled E c)"
  by (simp add: settled_def emits_return emits_throw split: option.splits)

lemma emits_ext: "P (Ext c) \<Longrightarrow> emits P (ext E c)"
  by (simp add: ext_def emits_bind emits_emit emits_settled)

lemma emits_plain:
  "emits P (assign_browser b)" "emits P (assign_context c)" "emits P read_browser"
  "emits P read_context" "emits P (existsSync p)" "emits P (every_existsSync ps)"
  "emits P (modify_fs g)"
  by (simp_all add: emits_def assign_browser_def assign_context_def read_browser_def
      read_context_def existsSync_def every_existsSync_def modify_fs_def)

lemma emits_block_Nil: "emits P (block [])"
  by (simp add: emits_return)

lemma emits_block_Cons: "emits P m \<Longrightarrow> emits P (block ms) \<Longrightarrow> emits P (block (m # ms))"
  by (simp add: emits_bind)

lemma emits_if: "emits P a \<Longrightarrow> emits P b \<Longrightarrow> emits P (if c then a else b)"
  by simp

lemma emits_case_option:
  "emits P a \<Longrightarrow> (\<And>x. emits P (f x)) \<Longrightarrow> emits P (case v of None \<Rightarrow> a | Some x \<Rightarrow> f x)"
  by (cases v) simp_all

lemma emits_case_outcome:
  "(\<And>x. emits P (f x)) \<Longrightarrow> (\<And>e. emits P (g e)) \<Longrightarrow> emits P (case v of Ok x \<Rightarrow> f x | Throw e \<Rightarrow> g e)"
  by (cases v) simp_all

lemma emits_case_prod: "(\<And>a b. emits P (f a b)) \<Longrightarrow> emits P (case v of (a, b) \<Rightarrow> f a b)"
  by (cases v) simp

lemmas emits_intros =
  emits_return emits_throw emits_bind emits_try_catch emits_try_finally emits_outcome_of
  emits_settled emits_plain emits_block_Nil emits_block_Cons emits_if
  emits_case_option emits_case_outcome emits_case_prod emits_emit emits_ext

lemma emits_writeFileSync: "P (Ext (WriteFileSync p d)) \<Longrightarrow> emits P (writeFileSync E p d)"
  unfolding writeFileSync_def by (intro emits_intros)

lemma emits_unlinkSync: "P (Ext (UnlinkSync p)) \<Longrightarrow> emits P (unlinkSync E p)"
  unfolding unlinkSync_def by (intro emits_intros)

lemma emits_mkdirSync: "P (Ext (MkdirSync p r)) \<Longrightarrow> emits P (mkdirSync E p r)"
  unfolding mkdirSync_def by (intro emits_intros)

lemma ordinary_simps [simp]:
  "ordinary (Enter n) = (n \<noteq> ''cleanup'' \<and> n \<noteq> ''captureErrorScreenshot'')"
  "ordinary (Log l m a) = (\<not> (l = Err \<and> m = ''Media Shuttle upload failed:''))"
  "ordinary (Ext c) = (\<forall>h a. c \<noteq> ChromiumLaunch h a)"
  by (auto simp: ordinary_def split: call.splits)

lemma emits_login: "emits ordinary (login E page config)"
  unfolding login_def logger_log_def logger_error_def
  by (intro emits_intros; simp)

lemma emits_monitorTransferProgress: "emits ordinary (monitorTransferProgress E page)"
  unfolding monitorTransferProgress_def
  by (intro emits_intros; simp)

lemma emits_textContent_or_null: "emits ordinary (textContent_or_null E sel)"
  unfolding textContent_or_null_def by (intro emits_intros; simp)

lemma emits_isVisible_or_false: "emits ordinary (isVisible_or_false E sel)"
  unfolding isVisible_or_false_def by (intro emits_intros; simp)

lemma emits_waitForUploadCompletion: "emits ordinary (waitForUploadCompletion E page)"
  unfolding waitForUploadCompletion_def logger_log_def logger_warn_def
  by (intro emits_intros emits_monitorTransferProgress emits_textContent_or_null; simp)

lemma emits_performUpload: "emits ordinary (performUpload E page filePaths config)"
  unfolding performUpload_def logger_log_def logger_error_def
  by (intro emits_intros emits_waitForUploadCompletion emits_isVisible_or_false; simp)


subsection \<open>Code that cannot throw\<close>

lemma no_throwD: "no_throw m \<Longrightarrow> \<exists>a s1. m s = (Ok a, s1)"
  unfolding no_throw_def by (metis prod.collapse)

lemma no_throw_return: "no_throw (io_return a)"
  by (simp add: no_throw_def io_return_def)

lemma no_throw_bind: "no_throw m \<Longrightarrow> (\<And>a. no_throw (f a)) \<Longrightarrow> no_throw (io_bind m f)"
proof -
  assume m: "no_throw m" and f: "\<And>a. no_throw (f a)"
  show ?thesis
    unfolding no_throw_def
  proof
    fix s
    from no_throwD[OF m, of s] obtain a s1 where ms: "m s = (Ok a, s1)" by blast
    from no_throwD[OF f, of a s1] obtain b s2 where "f a s1 = (Ok b, s2)" by blast
    with ms show "\<exists>b. fst (io_bind m f s) = Ok b" by (simp add: io_bind_def)
  qed
qed

lemma no_throw_try_catch: "(\<And>e. no_throw (h e)) \<Longrightarrow> no_throw (try_catch m h)"
proof -
  assume h: "\<And>e. no_throw (h e)"
  show ?thesis
    unfolding no_throw_def
  proof
    fix s
    obtain r s1 where ms: "m s = (r, s1)" by (cases "m s")
    show "\<exists>a. fst (try_catch m h s) = Ok a"
    proof (cases r)
      case (Ok a)
      with ms show ?thesis by (simp add: try_catch_def)
    next
      case (Throw e)
      from no_throwD[OF h, of e s1] obtain b s2 where "h e s1 = (Ok b, s2)" by blast
      with ms Throw show ?thesis by (simp add: try_catch_def)
    qed
  qed
qed

lemma no_throw_try_finally: "no_throw m \<Longrightarrow> no_throw fin \<Longrightarrow> no_throw (try_finally m fin)"
proof -
  assume m: "no_throw m" and f: "no_throw fin"
  show ?thesis
    unfolding no_throw_def
  proof
    fix s
    from no_throwD[OF m, of s] obtain a s1 where ms: "m s = (Ok a, s1)" by blast
    from no_throwD[OF f, of s1] obtain u s2 where "fin s1 = (Ok u, s2)" by blast
    with ms show "\<exists>b. fst (try_finally m fin s) = Ok b" by (simp add: try_finally_def)
  qed
qed

lemma no_throw_outcome_of: "no_throw (outcome_of m)"
  by (simp add: no_throw_def outcome_of_def split: prod.splits)

lemma no_throw_emit: "no_throw (emit ev)"
  by (simp add: no_throw_def emit_def)

lemma no_throw_logger:
  "no_throw (logger_log msg)" "no_throw (logger_warn msg)" "no_throw (logger_error1 msg)"
  "no_throw (logger_error msg e)"
  by (simp_all add: logger_log_def logger_warn_def logger_error1_def logger_error_def no_throw_emit)

lemma no_throw_plain:
  "no_throw (assign_browser b)" "no_throw (assign_context c)" "no_throw read_browser"
  "no_throw read_context" "no_throw (existsSync p)" "no_throw (every_existsSync ps)"
  "no_throw (modify_fs g)"
  by (simp_all add: no_throw_def assign_browser_def assign_context_def read_browser_def
      read_context_def existsSync_def every_existsSync_def modify_fs_def)

lemma no_throw_block_Nil: "no_throw (block [])"
  by (simp add: no_throw_return)

lemma no_throw_block_Cons: "no_throw m \<Longrightarrow> no_throw (block ms) \<Longrightarrow> no_throw (block (m # ms))"
  by (simp add: no_throw_bind)

lemma no_throw_if: "no_throw a \<Longrightarrow> no_throw b \<Longrightarrow> no_throw (if c then a else b)"
  by simp

lemma no_throw_case_option:
  "no_throw a \<Longrightarrow> (\<And>x. no_throw (f x)) \<Longrightarrow> no_throw (case v of None \<Rightarrow> a | Some x \<Rightarrow> f x)"
  by (cases v) simp_all

lemma no_throw_case_outcome:
  "(\<And>x. no_throw (f x)) \<Longrightarrow> (\<And>e. no_throw (g e))
     \<Longrightarrow> no_throw (case v of Ok x \<Rightarrow> f x | Throw e \<Rightarrow> g e)"
  by (cases v) simp_all

lemma no_throw_case_prod: "(\<And>a b. no_throw (f a b)) \<Longrightarrow> no_throw (case v of (a, b) \<Rightarrow> f a b)"
  by (cases v) simp

lemmas no_throw_intros =
  no_throw_return no_throw_bind no_throw_try_catch no_throw_try_finally no_throw_outcome_of
  no_throw_emit no_throw_logger no_throw_plain no_throw_block_Nil no_throw_block_Cons
  no_throw_if no_throw_case_option no_throw_case_outcome no_throw_case_prod

lemma no_throw_captureErrorScreenshot: "no_throw (captureErrorScreenshot E page)"
  unfolding captureErrorScreenshot_def by (intro no_throw_intros)

lemma no_throw_cleanup: "no_throw (cleanup E)"
  unfolding cleanup_def by (intro no_throw_intros)

lemma no_throw_upload_attempt: "no_throw (upload_attempt E filePaths config)"
  unfolding upload_attempt_def by (intro no_throw_intros)

lemma no_throw_upload_failed: "no_throw (upload_failed E page e)"
  unfolding upload_failed_def by (intro no_throw_intros no_throw_captureErrorScreenshot)

lemma no_throw_uploadToMediaShuttle: "no_throw (uploadToMediaShuttle E filePaths config)"
  unfolding uploadToMediaShuttle_def
  by (intro no_throw_intros no_throw_upload_attempt no_throw_upload_failed no_throw_cleanup)

lemma no_throw_stageFiles: "no_throw (stageFiles E files tempFilePaths)"
  by (induction files arbitrary: tempFilePaths) (auto intro!: no_throw_intros)

lemma no_throw_cleanupTempFile: "no_throw (cleanupTempFile E p)"
  unfolding cleanupTempFile_def by (intro no_throw_intros)

lemma no_throw_cleanupTempFiles: "no_throw (cleanupTempFiles E ps)"
  by (induction ps) (auto intro!: no_throw_intros no_throw_cleanupTempFile)

lemma no_throw_upload_batch: "no_throw (upload_batch E reportFiles tempFilePaths config)"
  unfolding upload_batch_def by (intro no_throw_intros no_throw_uploadToMediaShuttle)

lemma no_throw_upload_staged: "no_throw (upload_staged E reportFiles config)"
  unfolding upload_staged_def
  by (intro no_throw_intros no_throw_stageFiles no_throw_cleanupTempFiles)

subsection \<open>More on events\<close>

lemma emits_logger:
  "P (Log Info msg None) \<Longrightarrow> emits P (logger_log msg)"
  "P (Log Warn msg None) \<Longrightarrow> emits P (logger_warn msg)"
  "P (Log Err msg None) \<Longrightarrow> emits P (logger_error1 msg)"
  "P (Log Err msg (Some (AnExn e))) \<Longrightarrow> emits P (logger_error msg e)"
  by (simp_all add: logger_log_def logger_warn_def logger_error1_def logger_error_def emits_emit)

lemma emits_initializeBrowser:
  "emits (\<lambda>ev. ordinary ev \<or> ev = Ext (ChromiumLaunch False launch_args))
     (initializeBrowser E config)"
  unfolding initializeBrowser_def
  by (intro emits_intros emits_logger; simp)

lemma emits_captureErrorScreenshot:
  "emits (\<lambda>ev. ordinary ev \<or> ev = Enter ''captureErrorScreenshot'')
     (captureErrorScreenshot E page)"
  unfolding captureErrorScreenshot_def
  by (intro emits_intros emits_logger emits_mkdirSync; simp)

lemma emits_cleanup: "emits (\<lambda>ev. ordinary ev \<or> ev = Enter ''cleanup'') (cleanup E)"
  unfolding cleanup_def
  by (intro emits_intros emits_logger; simp)

lemma emits_upload_attempt:
  "emits (\<lambda>ev. ordinary ev \<or> ev = Ext (ChromiumLaunch False launch_args))
     (upload_attempt E filePaths config)"
  unfolding upload_attempt_def
  by (intro emits_intros emits_logger emits_initializeBrowser
        emits_mono[OF emits_login] emits_mono[OF emits_performUpload]; simp)

lemma emits_stageFiles: "emits ordinary (stageFiles E files tempFilePaths)"
  by (induction files arbitrary: tempFilePaths)
     (auto intro!: emits_intros emits_logger emits_writeFileSync)

lemma emits_cleanupTempFiles: "emits ordinary (cleanupTempFiles E ps)"
  by (induction ps)
     (auto simp: cleanupTempFile_def intro!: emits_intros emits_logger emits_unlinkSync)


subsection \<open>Runs of the orchestrator\<close>

lemma events_of_emits:
  assumes "emits P m"
  shows "trace (snd (m s)) = trace s @ events_of m s" and "list_all P (events_of m s)"
  using emitsD[OF assms, of s] by (auto simp: events_of_def)

lemma events_ofI: "m s = (r, s1) \<Longrightarrow> trace s1 = trace s @ es \<Longrightarrow> events_of m s = es"
  by (simp add: events_of_def)

lemma run_entered:
  assumes "no_throw m" and "emits P m"
  shows "\<exists>s1 es. block [emit ev, m] s = (Ok (), s1) \<and> trace s1 = trace s @ ev # es \<and> list_all P es"
proof -
  let ?s0 = "s\<lparr>trace := trace s @ [ev]\<rparr>"
  from no_throwD[OF assms(1), of ?s0] obtain u s1 where ms: "m ?s0 = (Ok u, s1)" by blast
  from emitsD[OF assms(2), of ?s0] ms obtain es where
    "trace s1 = trace ?s0 @ es" "list_all P es" by auto
  with ms show ?thesis
    by (auto simp: io_bind_def emit_def io_return_def)
qed

lemma captureErrorScreenshot_run:
  "\<exists>s1 es. captureErrorScreenshot E page s = (Ok (), s1)
     \<and> trace s1 = trace s @ Enter ''captureErrorScreenshot'' # es \<and> list_all ordinary es"
  unfolding captureErrorScreenshot_def
  by (rule run_entered) (intro no_throw_intros, (intro emits_intros emits_logger emits_mkdirSync; simp))

lemma cleanup_run:
  "\<exists>s1 es. cleanup E s = (Ok (), s1)
     \<and> trace s1 = trace s @ Enter ''cleanup'' # es \<and> list_all ordinary es"
  unfolding cleanup_def
  by (rule run_entered) (intro no_throw_intros, (intro emits_intros emits_logger; simp))

lemma upload_failed_run:
  "\<exists>s2 es. upload_failed E pg e s = (Ok (failure_result e), s2)
     \<and> trace s2 = trace s @ Log Err ''Media Shuttle upload failed:'' (Some (AnExn e)) # es
     \<and> (case pg of None \<Rightarrow> es = []
         | Some p \<Rightarrow> \<exists>es1. es = Enter ''captureErrorScreenshot'' # es1 \<and> list_all ordinary es1)"
proof (cases pg)
  case None
  then show ?thesis
    by (simp add: upload_failed_def io_bind_def logger_error_def emit_def io_return_def
        failure_result_def)
next
  case (Some p)
  let ?s0 = "s\<lparr>trace := trace s @ [Log Err ''Media Shuttle upload failed:'' (Some (AnExn e))]\<rparr>"
  from captureErrorScreenshot_run[of E p ?s0] obtain s1 es1 where
    "captureErrorScreenshot E p ?s0 = (Ok (), s1)"
    "trace s1 = trace ?s0 @ Enter ''captureErrorScreenshot'' # es1" "list_all ordinary es1"
    by blast
  with Some show ?thesis
    by (simp add: upload_failed_def io_bind_def logger_error_def emit_def io_return_def
        failure_result_def)
qed

lemma upload_attempt_run:
  "\<exists>r pg s1 es. upload_attempt E filePaths config s = (Ok (r, pg), s1)
     \<and> trace s1 = trace s @ es
     \<and> list_all (\<lambda>ev. ordinary ev \<or> ev = Ext (ChromiumLaunch False launch_args)) es"
proof -
  from no_throwD[OF no_throw_upload_attempt, of E filePaths config s]
  obtain a s1 where r: "upload_attempt E filePaths config s = (Ok a, s1)" by blast
  from emitsD[OF emits_upload_attempt, of E filePaths config s] r
  obtain es where "trace s1 = trace s @ es"
    "list_all (\<lambda>ev. ordinary ev \<or> ev = Ext (ChromiumLaunch False launch_args)) es" by auto
  with r show ?thesis by (cases a) auto
qed


lemma uploadToMediaShuttle_unfold:
  "uploadToMediaShuttle E filePaths config s =
     try_finally
       (io_bind (upload_attempt E filePaths config) (\<lambda>(r, page).
          case r of Ok result \<Rightarrow> io_return result | Throw e \<Rightarrow> upload_failed E page e))
       (cleanup E) (snd (emit (Enter ''uploadToMediaShuttle'') s))"
  by (simp add: uploadToMediaShuttle_def io_bind_def emit_def)

lemma uploadToMediaShuttle_ok:
  assumes "upload_attempt E filePaths config (snd (emit (Enter ''uploadToMediaShuttle'') s))
             = (Ok (Ok result, pg), s1)"
  shows "\<exists>s3 es3. uploadToMediaShuttle E filePaths config s = (Ok result, s3)
           \<and> trace s3 = trace s1 @ Enter ''cleanup'' # es3 \<and> list_all ordinary es3"
proof -
  from cleanup_run[of E s1] obtain s3 es3 where
    "cleanup E s1 = (Ok (), s3)" "trace s3 = trace s1 @ Enter ''cleanup'' # es3"
    "list_all ordinary es3" by blast
  with assms show ?thesis
    by (simp add: uploadToMediaShuttle_unfold try_finally_def io_bind_def io_return_def)
qed

lemma uploadToMediaShuttle_fail:
  assumes "upload_attempt E filePaths config (snd (emit (Enter ''uploadToMediaShuttle'') s))
             = (Ok (Throw e, pg), s1)"
  shows "\<exists>s3 es2 es3. uploadToMediaShuttle E filePaths config s = (Ok (failure_result e), s3)
           \<and> trace s3 = trace s1 @ Log Err ''Media Shuttle upload failed:'' (Some (AnExn e))
                          # es2 @ Enter ''cleanup'' # es3
           \<and> list_all ordinary es3
           \<and> (case pg of None \<Rightarrow> es2 = []
               | Some p \<Rightarrow> \<exists>es1. es2 = Enter ''captureErrorScreenshot'' # es1 \<and> list_all ordinary es1)"
proof -
  from upload_failed_run[of E pg e s1] obtain s2 es2 where f:
    "upload_failed E pg e s1 = (Ok (failure_result e), s2)"
    "trace s2 = trace s1 @ Log Err ''Media Shuttle upload failed:'' (Some (AnExn e)) # es2"
    "case pg of None \<Rightarrow> es2 = []
     | Some p \<Rightarrow> \<exists>es1. es2 = Enter ''captureErrorScreenshot'' # es1 \<and> list_all ordinary es1"
    by blast
  from cleanup_run[of E s2] obtain s3 es3 where c:
    "cleanup E s2 = (Ok (), s3)" "trace s3 = trace s2 @ Enter ''cleanup'' # es3"
    "list_all ordinary es3" by blast
  from assms f(1) c(1) have
    "uploadToMediaShuttle E filePaths config s = (Ok (failure_result e), s3)"
    by (simp add: uploadToMediaShuttle_unfold try_finally_def io_bind_def)
  with f c show ?thesis by auto
qed

subsection \<open>Evaluating the examples\<close>

lemmas run_defs =
  io_return_def io_throw_def io_bind_def try_catch_def try_finally_def outcome_of_def
  emit_def logger_log_def logger_warn_def logger_error1_def logger_error_def settled_def ext_def
  assign_browser_def assign_context_def read_browser_def read_context_def
  existsSync_def every_existsSync_def modify_fs_def writeFileSync_def unlinkSync_def mkdirSync_def

lemmas service_defs =
  initializeBrowser_def login_def monitorTransferProgress_def textContent_or_null_def
  waitForUploadCompletion_def isVisible_or_false_def performUpload_def
  captureErrorScreenshot_def cleanup_def upload_attempt_def upload_failed_def
  uploadToMediaShuttle_def

lemmas text_defs =
  pageFunction_def isCompleted_def topTextContent_def toLowerCase_def toLowerChar_def

lemma example_env_simps [simp]:
  "fails example_env = (\<lambda>c. None)"
  "isVisible_result example_env = (\<lambda>sel. Ok True)"
  "page_url example_env = ''https://portal.example.org/send''"
  "topText_samples example_env = [None, Some (Some ''Uploading''), Some (Some ''Transfer Completed'')]"
  "textContent_result example_env = Ok None"
  "configService_get example_env = Some example_settings"
  "os_tmpdir example_env = ''/tmp''"
  "process_cwd example_env = ''/app''"
  "Date_now example_env = 1700000000000"
  by (simp_all add: example_env_def)

lemma example_state_simps [simp]:
  "this_browser example_state = None" "this_context example_state = None"
  "fs example_state = Map.empty" "trace example_state = []"
  by (simp_all add: example_state_def)

lemma staged_state_simps [simp]:
  "this_browser staged_state = None" "this_context staged_state = None"
  "fs staged_state = [''/tmp/x_Report.docx'' \<mapsto> File [1, 2, 3]]" "trace staged_state = []"
  by (simp_all add: staged_state_def)

lemma example_settings_simps [simp]:
  "url example_settings = Some ''https://portal.example.org/send''"
  "username example_settings = Some ''mayo@example.org''"
  "password example_settings = Some ''secret''"
  "recipientEmail example_settings = Some ''lab@example.org''"
  "headless example_settings = Some True"
  "timeout example_settings = Some 30000"
  by (simp_all add: example_settings_def mediaShuttleConfig_def number_or_def)

lemma example_config_simps [simp]:
  "url example_config = Some ''https://portal.example.org/send''"
  "username example_config = Some ''mayo@example.org''"
  "password example_config = Some ''secret''"
  "recipientEmail example_config = Some ''lab@example.org''"
  "headless example_config = Some True"
  "timeout example_config = Some 30000"
  by (simp_all add: example_config_def)

section \<open>The orchestrator never throws\<close>



section \<open>The completion monitor\<close>

lemma pageFunction_cases: "pageFunction t = Ok False \<or> (\<exists>e. pageFunction t = Throw e)"
  by (simp add: pageFunction_def split: option.splits)

lemma monitorTransferProgress_run:
  "\<exists>e. monitorTransferProgress E page s
        = (Throw e,
           s\<lparr>trace := trace s @ [Enter ''monitorTransferProgress'', Ext (WaitForFunction 300000)]\<rparr>)"
proof (cases "find (\<lambda>topText. pageFunction topText \<noteq> Ok False) (topText_samples E)")
  case None
  then show ?thesis
    by (simp add: monitorTransferProgress_def io_bind_def emit_def io_throw_def)
next
  case (Some t)
  then have "pageFunction t \<noteq> Ok False"
    by (auto simp: find_Some_iff)
  with pageFunction_cases[of t] obtain e where "pageFunction t = Throw e"
    by auto
  with Some show ?thesis
    by (simp add: monitorTransferProgress_def io_bind_def emit_def io_throw_def)
qed

text \<open>
  The polling never ends normally, so every run of \<open>waitForUploadCompletion\<close> is decided
  by the text of the error element.
\<close>

lemma waitForUploadCompletion_outcome:
  "fst (waitForUploadCompletion E page s)
     = (case textContent_result E of
          Ok (Some m) \<Rightarrow>
            if str_includes (toLowerCase m) ''error''
            then Throw (Error (''Transfer failed: '' @ m)) else Ok ()
        | Ok None \<Rightarrow> Ok ()
        | Throw e \<Rightarrow> Ok ())"
proof -
  obtain e where m: "monitorTransferProgress E page
      (s\<lparr>trace := trace s @
         [Enter ''waitForUploadCompletion'',
          Log Info ''Waiting for Media Shuttle transfer completion...'' None,
          Ext (WaitForSelector ''#transferProgressDetails'' ''timeout: 10000''),
          Log Info ''Transfer progress details found, monitoring completion...'' None]\<rparr>)
      = (Throw e,
         s\<lparr>trace := trace s @
         [Enter ''waitForUploadCompletion'',
          Log Info ''Waiting for Media Shuttle transfer completion...'' None,
          Ext (WaitForSelector ''#transferProgressDetails'' ''timeout: 10000''),
          Log Info ''Transfer progress details found, monitoring completion...'' None,
          Enter ''monitorTransferProgress'', Ext (WaitForFunction 300000)]\<rparr>)"
    using monitorTransferProgress_run[of E page "s\<lparr>trace := trace s @
         [Enter ''waitForUploadCompletion'',
          Log Info ''Waiting for Media Shuttle transfer completion...'' None,
          Ext (WaitForSelector ''#transferProgressDetails'' ''timeout: 10000''),
          Log Info ''Transfer progress details found, monitoring completion...'' None]\<rparr>"]
    by auto
  have empty: "\<not> str_includes (toLowerCase []) ''error''"
    by (simp add: toLowerCase_def)
  show ?thesis
    using m empty
    by (simp add: waitForUploadCompletion_def textContent_or_null_def
        io_return_def io_throw_def io_bind_def try_catch_def emit_def logger_log_def
        logger_warn_def settled_def ext_def
        split: option.splits outcome.splits)
qed

lemma stalled_env_simps [simp]:
  "fails stalled_env (WaitForSelector ''#transferProgressDetails'' ''timeout: 10000'')
     = Some (Error ''page.waitForSelector: Timeout 10000ms exceeded.'')"
  "textContent_result stalled_env = Ok (Some ''Upload error: quota exceeded'')"
  by (simp_all add: stalled_env_def)

text \<open>The fallback on a portal whose progress details never appear.\<close>

lemma waitForUploadCompletion_stalled:
  "fst (waitForUploadCompletion stalled_env Page example_state)
     = Throw (Error ''Transfer failed: Upload error: quota exceeded'')"
  by (simp add: waitForUploadCompletion_outcome toLowerCase_def toLowerChar_def)

lemma marker_error_env_simps [simp]:
  "fails marker_error_env = (\<lambda>c. None)"
  "topText_samples marker_error_env
     = [None, Some (Some ''Uploading''), Some (Some ''Transfer Completed'')]"
  "textContent_result marker_error_env = Ok (Some ''No errors'')"
  by (simp_all add: marker_error_env_def)

text \<open>
  C5, at an input on which the two-tier policy is not followed.  The progress details
  appear and the status text reaches \<^verbatim>\<open>Transfer Completed\<close>, a terminal marker, while the
  first element of the error selector reads \<^verbatim>\<open>No errors\<close>.  On the marker the polled
  function throws inside the page, the wait rejects, the \<^verbatim>\<open>catch\<close> block reads the error
  element, and \<open>waitForUploadCompletion\<close> throws \<^verbatim>\<open>Transfer failed: No errors\<close> instead of
  returning normally.
\<close>

theorem waitForUploadCompletion_marker_rejected:
  "fails marker_error_env (WaitForSelector ''#transferProgressDetails'' ''timeout: 10000'') = None
   \<and> Some (Some ''Transfer Completed'') \<in> set (topText_samples marker_error_env)
   \<and> isCompleted (topTextContent (Some ''Transfer Completed''))
   \<and> fst (waitForUploadCompletion marker_error_env Page example_state)
       = Throw (Error ''Transfer failed: No errors'')
   \<and> events_of (waitForUploadCompletion marker_error_env Page) example_state
       = [Enter ''waitForUploadCompletion'',
          Log Info ''Waiting for Media Shuttle transfer completion...'' None,
          Ext (WaitForSelector ''#transferProgressDetails'' ''timeout: 10000''),
          Log Info ''Transfer progress details found, monitoring completion...'' None,
          Enter ''monitorTransferProgress'',
          Ext (WaitForFunction 300000),
          Log Warn ''Could not detect transfer completion, checking for error messages...'' None,
          Ext (TextContent error_selector)]"
  by (simp add: events_of_def run_defs service_defs text_defs)

subsection \<open>The events of one attempt\<close>

lemma count_list_none: "list_all P es \<Longrightarrow> \<not> P x \<Longrightarrow> count_list es x = 0"
  by (induction es) auto

lemma uploadToMediaShuttle_events:
  "\<exists>r pg s1 es1 es2 es3 s3.
      upload_attempt E filePaths config (snd (emit (Enter ''uploadToMediaShuttle'') s))
        = (Ok (r, pg), s1)
    \<and> uploadToMediaShuttle E filePaths config s
        = (Ok (case r of Ok result \<Rightarrow> result | Throw e \<Rightarrow> failure_result e), s3)
    \<and> events_of (uploadToMediaShuttle E filePaths config) s
        = Enter ''uploadToMediaShuttle'' # es1 @ es2 @ Enter ''cleanup'' # es3
    \<and> list_all (\<lambda>ev. ordinary ev \<or> ev = Ext (ChromiumLaunch False launch_args)) es1
    \<and> list_all ordinary es3
    \<and> (case r of
          Ok result \<Rightarrow> es2 = []
        | Throw e \<Rightarrow>
            (\<exists>es4. es2 = Log Err ''Media Shuttle upload failed:'' (Some (AnExn e)) # es4
               \<and> (case pg of
                     None \<Rightarrow> es4 = []
                   | Some p \<Rightarrow> \<exists>es5. es4 = Enter ''captureErrorScreenshot'' # es5
                                   \<and> list_all ordinary es5)))"
proof -
  let ?s0 = "snd (emit (Enter ''uploadToMediaShuttle'') s)"
  have s0: "trace ?s0 = trace s @ [Enter ''uploadToMediaShuttle'']"
    by (simp add: emit_def)
  from upload_attempt_run[of E filePaths config ?s0]
  obtain r pg s1 es1 where a:
    "upload_attempt E filePaths config ?s0 = (Ok (r, pg), s1)"
    "trace s1 = trace ?s0 @ es1"
    "list_all (\<lambda>ev. ordinary ev \<or> ev = Ext (ChromiumLaunch False launch_args)) es1"
    by blast
  show ?thesis
  proof (cases r)
    case (Ok result)
    from uploadToMediaShuttle_ok[OF a(1)[unfolded Ok]]
    obtain s3 es3 where c:
      "uploadToMediaShuttle E filePaths config s = (Ok result, s3)"
      "trace s3 = trace s1 @ Enter ''cleanup'' # es3" "list_all ordinary es3"
      by blast
    from c(1) have "events_of (uploadToMediaShuttle E filePaths config) s
        = Enter ''uploadToMediaShuttle'' # es1 @ [] @ Enter ''cleanup'' # es3"
      by (rule events_ofI) (simp add: c(2) a(2) s0)
    with a c Ok show ?thesis
      by (intro exI[of _ r] exI[of _ pg] exI[of _ s1] exI[of _ es1] exI[of _ "[]"]
            exI[of _ es3] exI[of _ s3]) simp
  next
    case (Throw e)
    from uploadToMediaShuttle_fail[OF a(1)[unfolded Throw]]
    obtain s3 es2 es3 where c:
      "uploadToMediaShuttle E filePaths config s = (Ok (failure_result e), s3)"
      "trace s3 = trace s1 @ Log Err ''Media Shuttle upload failed:'' (Some (AnExn e))
                    # es2 @ Enter ''cleanup'' # es3"
      "list_all ordinary es3"
      "case pg of None \<Rightarrow> es2 = []
       | Some p \<Rightarrow> \<exists>es1. es2 = Enter ''captureErrorScreenshot'' # es1 \<and> list_all ordinary es1"
      by blast
    from c(1) have "events_of (uploadToMediaShuttle E filePaths config) s
        = Enter ''uploadToMediaShuttle'' # es1
          @ (Log Err ''Media Shuttle upload failed:'' (Some (AnExn e)) # es2)
          @ Enter ''cleanup'' # es3"
      by (rule events_ofI) (simp add: c(2) a(2) s0)
    with a c Throw show ?thesis
      by (intro exI[of _ r] exI[of _ pg] exI[of _ s1] exI[of _ es1]
            exI[of _ "Log Err ''Media Shuttle upload failed:'' (Some (AnExn e)) # es2"]
            exI[of _ es3] exI[of _ s3]) simp
  qed
qed


section \<open>Session teardown\<close>

lemma cleanup_unset:
  "this_context s = None \<Longrightarrow> this_browser s = None
     \<Longrightarrow> cleanup E s = (Ok (), s\<lparr>trace := trace s @ [Enter ''cleanup'']\<rparr>)"
  by (simp add: cleanup_def io_bind_def emit_def try_catch_def read_context_def
      read_browser_def io_return_def)

lemma cleanup_browser_only:
  "this_context s = None \<Longrightarrow> this_browser s \<noteq> None
     \<Longrightarrow> events_of (cleanup E) s
         = Enter ''cleanup'' # Ext BrowserClose
           # (case fails E BrowserClose of None \<Rightarrow> []
              | Some e \<Rightarrow> [Log Err ''Error during cleanup:'' (Some (AnExn e))])"
  by (auto simp: events_of_def cleanup_def io_bind_def emit_def try_catch_def read_context_def
      read_browser_def io_return_def io_throw_def ext_def settled_def assign_browser_def
      logger_error_def split: option.splits)

text \<open>
  C6.  Every run of \<open>uploadToMediaShuttle\<close> enters \<open>cleanup\<close> exactly once, whether the
  attempt fails before or at session acquisition, fails at a later step or completes.
  \<open>cleanup\<close> itself never throws, and it is safe on a session that was never or only
  partly initialised: with both handles null it calls nothing, with only the browser
  handle set it closes the browser and nothing else.
\<close>

theorem cleanup_exactly_once:
  "count_list (events_of (uploadToMediaShuttle E filePaths config) s) (Enter ''cleanup'') = 1
   \<and> (\<exists>s1. cleanup E s = (Ok (), s1))
   \<and> (this_context s = None \<and> this_browser s = None
        \<longrightarrow> cleanup E s = (Ok (), s\<lparr>trace := trace s @ [Enter ''cleanup'']\<rparr>))
   \<and> (this_context s = None \<and> this_browser s \<noteq> None
        \<longrightarrow> events_of (cleanup E) s
            = Enter ''cleanup'' # Ext BrowserClose
              # (case fails E BrowserClose of None \<Rightarrow> []
                 | Some e \<Rightarrow> [Log Err ''Error during cleanup:'' (Some (AnExn e))]))"
proof -
  from uploadToMediaShuttle_events[of E filePaths config s]
  obtain r pg s1 es1 es2 es3 s3 where
    "upload_attempt E filePaths config (snd (emit (Enter ''uploadToMediaShuttle'') s))
        = (Ok (r, pg), s1)"
    "uploadToMediaShuttle E filePaths config s
        = (Ok (case r of Ok result \<Rightarrow> result | Throw e \<Rightarrow> failure_result e), s3)"
    and ev: "events_of (uploadToMediaShuttle E filePaths config) s
       = Enter ''uploadToMediaShuttle'' # es1 @ es2 @ Enter ''cleanup'' # es3"
    "list_all (\<lambda>ev. ordinary ev \<or> ev = Ext (ChromiumLaunch False launch_args)) es1"
    "list_all ordinary es3"
    "case r of
       Ok result \<Rightarrow> es2 = []
     | Throw e \<Rightarrow>
         (\<exists>es4. es2 = Log Err ''Media Shuttle upload failed:'' (Some (AnExn e)) # es4
            \<and> (case pg of
                  None \<Rightarrow> es4 = []
                | Some p \<Rightarrow> \<exists>es5. es4 = Enter ''captureErrorScreenshot'' # es5
                                \<and> list_all ordinary es5))"
    by (elim exE conjE) (rule that)
  have c1: "count_list es1 (Enter ''cleanup'') = 0"
    by (rule count_list_none[OF ev(2)]) simp
  have c3: "count_list es3 (Enter ''cleanup'') = 0"
    by (rule count_list_none[OF ev(3)]) simp
  have c2: "count_list es2 (Enter ''cleanup'') = 0"
    using ev(4) by (auto split: outcome.splits option.splits dest: count_list_none[where x = "Enter ''cleanup''"])
  have once: "count_list (events_of (uploadToMediaShuttle E filePaths config) s) (Enter ''cleanup'') = 1"
    by (simp add: ev(1) c1 c2 c3)
  from cleanup_run[of E s] have never: "\<exists>s1. cleanup E s = (Ok (), s1)" by blast
  from once never cleanup_unset[of s E] cleanup_browser_only[of s E] show ?thesis by blast
qed


theorem cleanup_exactly_once_witness:
  "this_context example_state = None \<and> this_browser example_state = None
   \<and> cleanup example_env example_state = (Ok (), example_state\<lparr>trace := [Enter ''cleanup'']\<rparr>)
   \<and> this_context half_open_state = None \<and> this_browser half_open_state \<noteq> None
   \<and> events_of (cleanup example_env) half_open_state = [Enter ''cleanup'', Ext BrowserClose]
   \<and> count_list
        (events_of (uploadToMediaShuttle example_env [''/tmp/x_Report.docx''] example_config)
           staged_state) (Enter ''cleanup'') = 1"
  using cleanup_exactly_once[of example_env "[''/tmp/x_Report.docx'']" example_config example_state]
    cleanup_exactly_once[of example_env "[''/tmp/x_Report.docx'']" example_config half_open_state]
    cleanup_exactly_once[of example_env "[''/tmp/x_Report.docx'']" example_config staged_state]
  by (simp add: half_open_state_def)

section \<open>The headless flag\<close>

lemma list_all_weaken: "list_all P es \<Longrightarrow> (\<And>x. P x \<Longrightarrow> Q x) \<Longrightarrow> list_all Q es"
  by (induction es) auto

lemma emits_uploadToMediaShuttle:
  "emits (\<lambda>ev. \<forall>a. ev \<noteq> Ext (ChromiumLaunch True a)) (uploadToMediaShuttle E filePaths config)"
  unfolding uploadToMediaShuttle_def upload_failed_def
  by (intro emits_intros emits_logger emits_mono[OF emits_upload_attempt]
        emits_mono[OF emits_captureErrorScreenshot] emits_mono[OF emits_cleanup]; auto)

text \<open>
  C10.  The browser is launched with \<^verbatim>\<open>headless: false\<close> whatever the configuration
  says: no run of \<open>uploadToMediaShuttle\<close> launches a headless browser, the first call of
  \<open>initializeBrowser\<close> is the launch with \<open>False\<close>, and changing the flag \<open>headless\<close>
  of the configuration changes nothing in \<open>initializeBrowser\<close> or
  \<open>uploadToMediaShuttle\<close>.  The flag itself is what the factory reads from
  \<^verbatim>\<open>MEDIA_SHUTTLE_HEADLESS\<close>.
\<close>

theorem launch_ignores_headless_flag:
  "list_all (\<lambda>ev. \<forall>a. ev \<noteq> Ext (ChromiumLaunch True a))
     (events_of (uploadToMediaShuttle E filePaths config) s)
   \<and> take 3 (events_of (initializeBrowser E config) s)
       = [Enter ''initializeBrowser'', Log Info ''Initializing browser...'' None,
          Ext (ChromiumLaunch False launch_args)]
   \<and> initializeBrowser E (config\<lparr>headless := h\<rparr>) = initializeBrowser E config
   \<and> uploadToMediaShuttle E filePaths (config\<lparr>headless := h\<rparr>)
       = uploadToMediaShuttle E filePaths config
   \<and> headless (mediaShuttleConfig Number process_env)
       = Some (process_env ''MEDIA_SHUTTLE_HEADLESS'' = Some ''true'')"
proof -
  have a: "list_all (\<lambda>ev. \<forall>a. ev \<noteq> Ext (ChromiumLaunch True a))
     (events_of (uploadToMediaShuttle E filePaths config) s)"
    by (rule events_of_emits(2)[OF emits_uploadToMediaShuttle])
  have b: "take 3 (events_of (initializeBrowser E config) s)
       = [Enter ''initializeBrowser'', Log Info ''Initializing browser...'' None,
          Ext (ChromiumLaunch False launch_args)]"
    by (simp add: events_of_def initializeBrowser_def io_bind_def emit_def logger_log_def
        ext_def settled_def io_return_def io_throw_def assign_browser_def assign_context_def
        split: option.splits)
  have c: "initializeBrowser E (config\<lparr>headless := h\<rparr>) = initializeBrowser E config"
    by (simp add: initializeBrowser_def)
  have l: "\<And>page. login E page (config\<lparr>headless := h\<rparr>) = login E page config"
    by (simp add: login_def)
  have p: "\<And>page. performUpload E page filePaths (config\<lparr>headless := h\<rparr>)
             = performUpload E page filePaths config"
    by (simp add: performUpload_def cong: if_cong)
  have u: "upload_attempt E filePaths (config\<lparr>headless := h\<rparr>)
             = upload_attempt E filePaths config"
    unfolding upload_attempt_def c l p ..
  have d: "uploadToMediaShuttle E filePaths (config\<lparr>headless := h\<rparr>)
       = uploadToMediaShuttle E filePaths config"
    unfolding uploadToMediaShuttle_def u ..
  have e: "headless (mediaShuttleConfig Number process_env)
       = Some (process_env ''MEDIA_SHUTTLE_HEADLESS'' = Some ''true'')"
    by (simp add: mediaShuttleConfig_def)
  from a b c d e show ?thesis by blast
qed

theorem launch_ignores_headless_flag_witness:
  "headless example_config = Some True
   \<and> take 3 (events_of (initializeBrowser example_env example_config) example_state)
       = [Enter ''initializeBrowser'', Log Info ''Initializing browser...'' None,
          Ext (ChromiumLaunch False launch_args)]
   \<and> uploadToMediaShuttle example_env [''/tmp/x_Report.docx'']
        (example_config\<lparr>headless := Some False\<rparr>)
       = uploadToMediaShuttle example_env [''/tmp/x_Report.docx''] example_config"
  using launch_ignores_headless_flag
          [of example_env "[''/tmp/x_Report.docx'']" example_config example_state "Some False"]
  by simp


section \<open>Diagnostic capture\<close>

lemma initializeBrowser_outcome:
  "fst (initializeBrowser E config s) = fst (initializeBrowser E config s')"
  by (simp add: initializeBrowser_def io_bind_def emit_def logger_log_def
      ext_def settled_def io_return_def io_throw_def assign_browser_def assign_context_def
      split: option.splits)

lemma upload_attempt_page:
  assumes "upload_attempt E filePaths config s = (Ok (r, pg), s1)"
  shows "(pg = None)
           = (\<not> list_all (\<lambda>p. fs s p \<noteq> None) filePaths
              \<or> (\<exists>e. fst (initializeBrowser E config s) = Throw e))"
proof -
  let ?s' = "s\<lparr>trace := trace s @ [Log Info (''Starting Media Shuttle upload for files: ''
                            @ join_with '', '' filePaths) None]\<rparr>"
  obtain r0 s0 where i: "initializeBrowser E config ?s' = (r0, s0)"
    by (cases "initializeBrowser E config ?s'")
  with initializeBrowser_outcome[of E config ?s' s]
  have o: "fst (initializeBrowser E config s) = r0" by simp
  from assms i o show ?thesis
    by (auto simp: upload_attempt_def io_bind_def io_return_def every_existsSync_def
        outcome_of_def logger_log_def emit_def split: if_splits outcome.splits prod.splits)
qed

lemma captureErrorScreenshot_events:
  "events_of (captureErrorScreenshot E page) s
     = Enter ''captureErrorScreenshot''
       # (let shot = Ext (Screenshot (screenshotPath E) True)
                     # (case fails E (Screenshot (screenshotPath E) True) of
                          Some e \<Rightarrow> [Log Err ''Failed to capture error screenshot:'' (Some (AnExn e))]
                        | None \<Rightarrow> [Log Info (''Error screenshot saved: '' @ screenshotPath E) None])
          in if fs s (path_dirname (screenshotPath E)) = None
             then Ext (MkdirSync (path_dirname (screenshotPath E)) True)
                  # (case fails E (MkdirSync (path_dirname (screenshotPath E)) True) of
                       Some e \<Rightarrow> [Log Err ''Failed to capture error screenshot:'' (Some (AnExn e))]
                     | None \<Rightarrow> shot)
             else shot)"
  by (simp add: events_of_def captureErrorScreenshot_def io_bind_def emit_def try_catch_def
      existsSync_def mkdirSync_def ext_def settled_def io_return_def io_throw_def modify_fs_def
      logger_error_def logger_log_def Let_def split: option.splits)

lemma uploadToMediaShuttle_fail_page:
  assumes "upload_attempt E filePaths config (snd (emit (Enter ''uploadToMediaShuttle'') s))
             = (Ok (Throw e, Some p), s1)"
  shows "\<exists>es1 es5 es3.
           events_of (uploadToMediaShuttle E filePaths config) s
             = Enter ''uploadToMediaShuttle'' # es1
               @ Log Err ''Media Shuttle upload failed:'' (Some (AnExn e))
               # Enter ''captureErrorScreenshot'' # es5 @ Enter ''cleanup'' # es3
         \<and> list_all (\<lambda>ev. ordinary ev \<or> ev = Ext (ChromiumLaunch False launch_args)) es1
         \<and> list_all ordinary es5 \<and> list_all ordinary es3
         \<and> Enter ''captureErrorScreenshot'' # es5
             = events_of (captureErrorScreenshot E p)
                 (snd (logger_error ''Media Shuttle upload failed:'' e s1))"
proof -
  let ?s0 = "snd (emit (Enter ''uploadToMediaShuttle'') s)"
  let ?sl = "snd (logger_error ''Media Shuttle upload failed:'' e s1)"
  have sl: "?sl = s1\<lparr>trace := trace s1 @ [Log Err ''Media Shuttle upload failed:'' (Some (AnExn e))]\<rparr>"
    by (simp add: logger_error_def emit_def)
  from upload_attempt_run[of E filePaths config ?s0] assms
  obtain es1 where a: "trace s1 = trace ?s0 @ es1"
    "list_all (\<lambda>ev. ordinary ev \<or> ev = Ext (ChromiumLaunch False launch_args)) es1"
    by auto
  from captureErrorScreenshot_run[of E p ?sl] obtain s2 es5 where c:
    "captureErrorScreenshot E p ?sl = (Ok (), s2)"
    "trace s2 = trace ?sl @ Enter ''captureErrorScreenshot'' # es5" "list_all ordinary es5"
    by blast
  from c(1,2) have cap: "events_of (captureErrorScreenshot E p) ?sl
      = Enter ''captureErrorScreenshot'' # es5"
    by (rule events_ofI)
  from cleanup_run[of E s2] obtain s3 es3 where d:
    "cleanup E s2 = (Ok (), s3)" "trace s3 = trace s2 @ Enter ''cleanup'' # es3"
    "list_all ordinary es3" by blast
  from assms c(1) d(1) have u: "uploadToMediaShuttle E filePaths config s = (Ok (failure_result e), s3)"
    by (simp add: uploadToMediaShuttle_unfold try_finally_def io_bind_def io_return_def
        upload_failed_def failure_result_def sl logger_error_def emit_def)
  have "events_of (uploadToMediaShuttle E filePaths config) s
             = Enter ''uploadToMediaShuttle'' # es1
               @ Log Err ''Media Shuttle upload failed:'' (Some (AnExn e))
               # Enter ''captureErrorScreenshot'' # es5 @ Enter ''cleanup'' # es3"
    using u by (rule events_ofI) (simp add: d(2) c(2) sl a(1) emit_def)
  with a(2) c(3) d(3) cap show ?thesis
    by (intro exI[of _ es1] exI[of _ es5] exI[of _ es3]) simp
qed

text \<open>
  C9, as amended.  When the \<^verbatim>\<open>try\<close> block of \<open>uploadToMediaShuttle\<close> throws \<open>e\<close>, the
  result is the failure built from \<open>e\<close>, whatever the capture does.  If the page had been
  acquired (the failure is one of login, initiation or monitoring),
  \<open>captureErrorScreenshot\<close> is entered exactly once, right after the failure is logged
  and before the teardown; if it had not (files missing, or \<open>initializeBrowser\<close> threw),
  no capture is made.  \<open>captureErrorScreenshot\<close> never throws, and what it leaves in the
  trace is: the call of \<^verbatim>\<open>mkdirSync\<close> if the directory of the screenshot does not exist;
  if that call fails, the line \<^verbatim>\<open>Failed to capture error screenshot:\<close> with its error
  and nothing more; otherwise the call of \<^verbatim>\<open>page.screenshot\<close>, followed by the same line
  with its error if it fails and by \<^verbatim>\<open>Error screenshot saved:\<close> if it does not.
\<close>

theorem capture_needs_page:
  assumes "upload_attempt E filePaths config (snd (emit (Enter ''uploadToMediaShuttle'') s))
             = (Ok (Throw e, pg), s1)"
  shows "fst (uploadToMediaShuttle E filePaths config s) = Ok (failure_result e)
     \<and> (pg = None)
         = (\<not> list_all (\<lambda>p. fs s p \<noteq> None) filePaths
            \<or> (\<exists>e'. fst (initializeBrowser E config s) = Throw e'))
     \<and> (pg = None \<longrightarrow>
           Enter ''captureErrorScreenshot''
             \<notin> set (events_of (uploadToMediaShuttle E filePaths config) s))
     \<and> (pg \<noteq> None \<longrightarrow>
           (\<exists>es1 es5 es3.
              events_of (uploadToMediaShuttle E filePaths config) s
                = Enter ''uploadToMediaShuttle'' # es1
                  @ Log Err ''Media Shuttle upload failed:'' (Some (AnExn e))
                  # Enter ''captureErrorScreenshot'' # es5 @ Enter ''cleanup'' # es3
              \<and> Enter ''captureErrorScreenshot'' \<notin> set (es1 @ es5 @ es3)
              \<and> Enter ''captureErrorScreenshot'' # es5
                  = events_of (captureErrorScreenshot E Page)
                      (snd (logger_error ''Media Shuttle upload failed:'' e s1))))
     \<and> (\<exists>s2. captureErrorScreenshot E page s' = (Ok (), s2))
     \<and> events_of (captureErrorScreenshot E page) s'
         = Enter ''captureErrorScreenshot''
           # (let shot = Ext (Screenshot (screenshotPath E) True)
                         # (case fails E (Screenshot (screenshotPath E) True) of
                              Some e3 \<Rightarrow>
                                [Log Err ''Failed to capture error screenshot:'' (Some (AnExn e3))]
                            | None \<Rightarrow>
                                [Log Info (''Error screenshot saved: '' @ screenshotPath E) None])
              in if fs s' (path_dirname (screenshotPath E)) = None
                 then Ext (MkdirSync (path_dirname (screenshotPath E)) True)
                      # (case fails E (MkdirSync (path_dirname (screenshotPath E)) True) of
                           Some e3 \<Rightarrow>
                             [Log Err ''Failed to capture error screenshot:'' (Some (AnExn e3))]
                         | None \<Rightarrow> shot)
                 else shot)"
proof -
  let ?s0 = "snd (emit (Enter ''uploadToMediaShuttle'') s)"
  have not_ordinary: "\<And>es. list_all ordinary es \<Longrightarrow> Enter ''captureErrorScreenshot'' \<notin> set es"
    by (auto simp: list_all_iff)
  have not_attempt: "\<And>es. list_all (\<lambda>ev. ordinary ev \<or> ev = Ext (ChromiumLaunch False launch_args)) es
                       \<Longrightarrow> Enter ''captureErrorScreenshot'' \<notin> set es"
    by (auto simp: list_all_iff)
  from uploadToMediaShuttle_events[of E filePaths config s]
  obtain r pg' s1' es1 es2 es3 s3 where
    a: "upload_attempt E filePaths config ?s0 = (Ok (r, pg'), s1')"
    and u: "uploadToMediaShuttle E filePaths config s
        = (Ok (case r of Ok result \<Rightarrow> result | Throw e \<Rightarrow> failure_result e), s3)"
    and ev: "events_of (uploadToMediaShuttle E filePaths config) s
       = Enter ''uploadToMediaShuttle'' # es1 @ es2 @ Enter ''cleanup'' # es3"
    "list_all (\<lambda>ev. ordinary ev \<or> ev = Ext (ChromiumLaunch False launch_args)) es1"
    "list_all ordinary es3"
    "case r of
       Ok result \<Rightarrow> es2 = []
     | Throw e \<Rightarrow>
         (\<exists>es4. es2 = Log Err ''Media Shuttle upload failed:'' (Some (AnExn e)) # es4
            \<and> (case pg' of
                  None \<Rightarrow> es4 = []
                | Some p \<Rightarrow> \<exists>es5. es4 = Enter ''captureErrorScreenshot'' # es5
                                \<and> list_all ordinary es5))"
    by (elim exE conjE) (rule that)
  from a assms have r: "r = Throw e" "pg' = pg" by simp_all
  from u r have result: "fst (uploadToMediaShuttle E filePaths config s) = Ok (failure_result e)"
    by simp
  from upload_attempt_page[OF assms] initializeBrowser_outcome[of E config ?s0 s]
  have page: "(pg = None)
         = (\<not> list_all (\<lambda>p. fs s p \<noteq> None) filePaths
            \<or> (\<exists>e'. fst (initializeBrowser E config s) = Throw e'))"
    by (simp add: emit_def)
  have none: "pg = None \<longrightarrow>
           Enter ''captureErrorScreenshot''
             \<notin> set (events_of (uploadToMediaShuttle E filePaths config) s)"
    using ev r not_ordinary[OF ev(3)] not_attempt[OF ev(2)] by auto
  have some: "pg \<noteq> None \<longrightarrow>
           (\<exists>es1 es5 es3.
              events_of (uploadToMediaShuttle E filePaths config) s
                = Enter ''uploadToMediaShuttle'' # es1
                  @ Log Err ''Media Shuttle upload failed:'' (Some (AnExn e))
                  # Enter ''captureErrorScreenshot'' # es5 @ Enter ''cleanup'' # es3
              \<and> Enter ''captureErrorScreenshot'' \<notin> set (es1 @ es5 @ es3)
              \<and> Enter ''captureErrorScreenshot'' # es5
                  = events_of (captureErrorScreenshot E Page)
                      (snd (logger_error ''Media Shuttle upload failed:'' e s1)))"
  proof
    assume "pg \<noteq> None"
    then have "pg = Some Page" by (cases pg) (auto intro: Page.exhaust)
    from uploadToMediaShuttle_fail_page[OF assms[unfolded this]]
    obtain fs1 fs5 fs3 where f:
      "events_of (uploadToMediaShuttle E filePaths config) s
             = Enter ''uploadToMediaShuttle'' # fs1
               @ Log Err ''Media Shuttle upload failed:'' (Some (AnExn e))
               # Enter ''captureErrorScreenshot'' # fs5 @ Enter ''cleanup'' # fs3"
      "list_all (\<lambda>ev. ordinary ev \<or> ev = Ext (ChromiumLaunch False launch_args)) fs1"
      "list_all ordinary fs5" "list_all ordinary fs3"
      "Enter ''captureErrorScreenshot'' # fs5
             = events_of (captureErrorScreenshot E Page)
                 (snd (logger_error ''Media Shuttle upload failed:'' e s1))"
      by (elim exE conjE) (rule that)
    from f(1,5) not_ordinary[OF f(3)] not_ordinary[OF f(4)] not_attempt[OF f(2)]
    show "\<exists>es1 es5 es3.
              events_of (uploadToMediaShuttle E filePaths config) s
                = Enter ''uploadToMediaShuttle'' # es1
                  @ Log Err ''Media Shuttle upload failed:'' (Some (AnExn e))
                  # Enter ''captureErrorScreenshot'' # es5 @ Enter ''cleanup'' # es3
              \<and> Enter ''captureErrorScreenshot'' \<notin> set (es1 @ es5 @ es3)
              \<and> Enter ''captureErrorScreenshot'' # es5
                  = events_of (captureErrorScreenshot E Page)
                      (snd (logger_error ''Media Shuttle upload failed:'' e s1))"
      by (intro exI[of _ fs1] exI[of _ fs5] exI[of _ fs3]) simp
  qed
  from captureErrorScreenshot_run[of E page s']
  have never: "\<exists>s2. captureErrorScreenshot E page s' = (Ok (), s2)" by blast
  note events = captureErrorScreenshot_events[of E page s']
  from result page none some never events
  show ?thesis by (intro conjI)
qed

lemma screenshotPath_example:
  "screenshotPath example_env = ''/app/logs/media-shuttle-error-1700000000000.png''"
  by (simp add: screenshotPath_def path_join_def path_normalize_def normalizeString_def
      norm_step_def show_nat.simps digit_char_def)

lemma login_failing_env_simps [simp]:
  "fails login_failing_env =
     (\<lambda>c. if c = RoleButtonClick ''/next/i''
               \<or> c = Screenshot ''/app/logs/media-shuttle-error-1700000000000.png'' True
          then Some (Error ''Timeout 30000ms exceeded.'') else None)"
  "isVisible_result login_failing_env = (\<lambda>sel. Ok True)"
  "page_url login_failing_env = ''https://portal.example.org/send''"
  "process_cwd login_failing_env = ''/app''"
  "Date_now login_failing_env = 1700000000000"
  "screenshotPath login_failing_env = ''/app/logs/media-shuttle-error-1700000000000.png''"
  using screenshotPath_example
  by (simp_all add: login_failing_env_def screenshotPath_def)

lemma launch_failing_env_simps [simp]:
  "fails launch_failing_env =
     (\<lambda>c. if c = ChromiumLaunch False launch_args
          then Some (Error ''browserType.launch: Failed to launch chromium'') else None)"
  by (simp add: launch_failing_env_def)

theorem capture_skipped_counterexample:
  "fst (uploadToMediaShuttle launch_failing_env [''/tmp/x_Report.docx''] example_config staged_state)
     = Ok (failure_result (Error ''browserType.launch: Failed to launch chromium''))
   \<and> Enter ''captureErrorScreenshot''
       \<notin> set (events_of
                (uploadToMediaShuttle launch_failing_env [''/tmp/x_Report.docx''] example_config)
                staged_state)"
  by (simp add: events_of_def run_defs service_defs failure_result_def)

lemma mkdir_failing_env_simps [simp]:
  "fails mkdir_failing_env =
     (\<lambda>c. if c = RoleButtonClick ''/next/i'' then Some (Error ''Timeout 30000ms exceeded.'')
          else if c = MkdirSync ''/app/logs'' True
          then Some (Error ''EACCES: permission denied, mkdir'') else None)"
  "isVisible_result mkdir_failing_env = (\<lambda>sel. Ok True)"
  "page_url mkdir_failing_env = ''https://portal.example.org/send''"
  "process_cwd mkdir_failing_env = ''/app''"
  "Date_now mkdir_failing_env = 1700000000000"
  "screenshotPath mkdir_failing_env = ''/app/logs/media-shuttle-error-1700000000000.png''"
  using screenshotPath_example
  by (simp_all add: mkdir_failing_env_def screenshotPath_def)

lemma screenshot_dirname_example:
  "path_dirname ''/app/logs/media-shuttle-error-1700000000000.png'' = ''/app/logs''"
  by (simp add: path_dirname_def)

theorem capture_needs_page_witness:
  "(\<exists>s1. upload_attempt login_failing_env [''/tmp/x_Report.docx''] example_config
            (snd (emit (Enter ''uploadToMediaShuttle'') staged_state))
          = (Ok (Throw (Error ''Login failed: Timeout 30000ms exceeded.''), Some Page), s1))
   \<and> fst (uploadToMediaShuttle login_failing_env [''/tmp/x_Report.docx''] example_config staged_state)
       = Ok (failure_result (Error ''Login failed: Timeout 30000ms exceeded.''))
   \<and> events_of (captureErrorScreenshot login_failing_env Page) staged_state
       = [Enter ''captureErrorScreenshot'',
          Ext (MkdirSync ''/app/logs'' True),
          Ext (Screenshot ''/app/logs/media-shuttle-error-1700000000000.png'' True),
          Log Err ''Failed to capture error screenshot:''
            (Some (AnExn (Error ''Timeout 30000ms exceeded.'')))]
   \<and> fst (uploadToMediaShuttle mkdir_failing_env [''/tmp/x_Report.docx''] example_config staged_state)
       = Ok (failure_result (Error ''Login failed: Timeout 30000ms exceeded.''))
   \<and> events_of (captureErrorScreenshot mkdir_failing_env Page) staged_state
       = [Enter ''captureErrorScreenshot'',
          Ext (MkdirSync ''/app/logs'' True),
          Log Err ''Failed to capture error screenshot:''
            (Some (AnExn (Error ''EACCES: permission denied, mkdir'')))]"
proof -
  have "\<exists>s1. upload_attempt login_failing_env [''/tmp/x_Report.docx''] example_config
            (snd (emit (Enter ''uploadToMediaShuttle'') staged_state))
          = (Ok (Throw (Error ''Login failed: Timeout 30000ms exceeded.''), Some Page), s1)"
    by (simp add: run_defs service_defs)
  then obtain s1 where a:
    "upload_attempt login_failing_env [''/tmp/x_Report.docx''] example_config
            (snd (emit (Enter ''uploadToMediaShuttle'') staged_state))
          = (Ok (Throw (Error ''Login failed: Timeout 30000ms exceeded.''), Some Page), s1)"
    by blast
  have "\<exists>s1. upload_attempt mkdir_failing_env [''/tmp/x_Report.docx''] example_config
            (snd (emit (Enter ''uploadToMediaShuttle'') staged_state))
          = (Ok (Throw (Error ''Login failed: Timeout 30000ms exceeded.''), Some Page), s1)"
    by (simp add: run_defs service_defs)
  then obtain s2 where b:
    "upload_attempt mkdir_failing_env [''/tmp/x_Report.docx''] example_config
            (snd (emit (Enter ''uploadToMediaShuttle'') staged_state))
          = (Ok (Throw (Error ''Login failed: Timeout 30000ms exceeded.''), Some Page), s2)"
    by blast
  note t1 = capture_needs_page[OF a, of Page staged_state]
  note t2 = capture_needs_page[OF b, of Page staged_state]
  from t1 have r1: "fst (uploadToMediaShuttle login_failing_env [''/tmp/x_Report.docx'']
                           example_config staged_state)
       = Ok (failure_result (Error ''Login failed: Timeout 30000ms exceeded.''))"
    by (rule conjunct1)
  from t2 have r2: "fst (uploadToMediaShuttle mkdir_failing_env [''/tmp/x_Report.docx'']
                           example_config staged_state)
       = Ok (failure_result (Error ''Login failed: Timeout 30000ms exceeded.''))"
    by (rule conjunct1)
  from t1 have e1: "events_of (captureErrorScreenshot login_failing_env Page) staged_state
       = [Enter ''captureErrorScreenshot'',
          Ext (MkdirSync ''/app/logs'' True),
          Ext (Screenshot ''/app/logs/media-shuttle-error-1700000000000.png'' True),
          Log Err ''Failed to capture error screenshot:''
            (Some (AnExn (Error ''Timeout 30000ms exceeded.'')))]"
    by (simp add: screenshot_dirname_example)
  from t2 have e2: "events_of (captureErrorScreenshot mkdir_failing_env Page) staged_state
       = [Enter ''captureErrorScreenshot'',
          Ext (MkdirSync ''/app/logs'' True),
          Log Err ''Failed to capture error screenshot:''
            (Some (AnExn (Error ''EACCES: permission denied, mkdir'')))]"
    by (simp add: screenshot_dirname_example)
  from a r1 e1 r2 e2 show ?thesis by blast
qed

section \<open>Runs of the coordinator\<close>

lemma uploadToMediaShuttle_failure_logged:
  assumes "Log Err ''Media Shuttle upload failed:'' (Some (AnExn e))
             \<in> set (events_of (uploadToMediaShuttle E filePaths config) s)"
  shows "fst (uploadToMediaShuttle E filePaths config s) = Ok (failure_result e)"
proof -
  have not_ordinary: "\<And>es. list_all ordinary es
      \<Longrightarrow> Log Err ''Media Shuttle upload failed:'' (Some (AnExn e)) \<notin> set es"
    by (auto simp: list_all_iff)
  have not_attempt: "\<And>es. list_all (\<lambda>ev. ordinary ev \<or> ev = Ext (ChromiumLaunch False launch_args)) es
      \<Longrightarrow> Log Err ''Media Shuttle upload failed:'' (Some (AnExn e)) \<notin> set es"
    by (auto simp: list_all_iff)
  from uploadToMediaShuttle_events[of E filePaths config s]
  obtain r pg s1 es1 es2 es3 s3 where
    a: "upload_attempt E filePaths config (snd (emit (Enter ''uploadToMediaShuttle'') s))
          = (Ok (r, pg), s1)"
    and u: "uploadToMediaShuttle E filePaths config s
        = (Ok (case r of Ok result \<Rightarrow> result | Throw e \<Rightarrow> failure_result e), s3)"
    and ev: "events_of (uploadToMediaShuttle E filePaths config) s
       = Enter ''uploadToMediaShuttle'' # es1 @ es2 @ Enter ''cleanup'' # es3"
    "list_all (\<lambda>ev. ordinary ev \<or> ev = Ext (ChromiumLaunch False launch_args)) es1"
    "list_all ordinary es3"
    "case r of
       Ok result \<Rightarrow> es2 = []
     | Throw e \<Rightarrow>
         (\<exists>es4. es2 = Log Err ''Media Shuttle upload failed:'' (Some (AnExn e)) # es4
            \<and> (case pg of
                  None \<Rightarrow> es4 = []
                | Some p \<Rightarrow> \<exists>es5. es4 = Enter ''captureErrorScreenshot'' # es5
                                \<and> list_all ordinary es5))"
    by (elim exE conjE) (rule that)
  from assms ev(1) not_ordinary[OF ev(3)] not_attempt[OF ev(2)]
  have in2: "Log Err ''Media Shuttle upload failed:'' (Some (AnExn e)) \<in> set es2" by auto
  with ev(4) not_ordinary have "r = Throw e"
    by (cases r; cases pg) auto
  with u show ?thesis by simp
qed

lemma uploadToMediaShuttle_success_quiet:
  assumes "fst (uploadToMediaShuttle E filePaths config s) = Ok r" and "success r"
  shows "Log Err ''Media Shuttle upload failed:'' (Some (AnExn e))
           \<notin> set (events_of (uploadToMediaShuttle E filePaths config) s)"
  using uploadToMediaShuttle_failure_logged[of e E filePaths config s] assms
  by (auto simp: failure_result_def)

lemma stageFiles_run:
  "\<exists>staged tempFilePaths s1 es.
     stageFiles E files acc s = (Ok (staged, tempFilePaths), s1)
     \<and> trace s1 = trace s @ es \<and> list_all ordinary es"
proof -
  from no_throwD[OF no_throw_stageFiles, of E files acc s]
  obtain a s1 where r: "stageFiles E files acc s = (Ok a, s1)" by blast
  from emitsD[OF emits_stageFiles, of E files acc s] r
  obtain es where "trace s1 = trace s @ es" "list_all ordinary es" by auto
  with r show ?thesis by (cases a) auto
qed

lemma cleanupTempFiles_run:
  "\<exists>s1 es. cleanupTempFiles E ps s = (Ok (), s1) \<and> trace s1 = trace s @ es \<and> list_all ordinary es"
proof -
  from no_throwD[OF no_throw_cleanupTempFiles, of E ps s]
  obtain a s1 where r: "cleanupTempFiles E ps s = (Ok a, s1)" by blast
  from emitsD[OF emits_cleanupTempFiles, of E ps s] r
  obtain es where "trace s1 = trace s @ es" "list_all ordinary es" by auto
  with r show ?thesis by auto
qed

lemma upload_batch_run:
  "\<exists>r s1 es.
     upload_batch E reportFiles tempFilePaths config s = (Ok (batch_results r reportFiles), s1)
     \<and> trace s1 = trace s @ es
     \<and> (\<forall>e. Log Err ''Media Shuttle upload failed:'' (Some (AnExn e)) \<in> set es
            \<longrightarrow> r = failure_result e)"
proof -
  let ?s0 = "s\<lparr>trace := trace s @ [Log Info (''[MAYO] Starting batch upload of ''
                    @ show_nat (length tempFilePaths) @ '' files'') None]\<rparr>"
  from no_throwD[OF no_throw_uploadToMediaShuttle, of E tempFilePaths config ?s0]
  obtain r s1 where u: "uploadToMediaShuttle E tempFilePaths config ?s0 = (Ok r, s1)" by blast
  have t: "trace s1 = trace ?s0 @ events_of (uploadToMediaShuttle E tempFilePaths config) ?s0"
    using events_of_emits(1)[OF emits_uploadToMediaShuttle, of E tempFilePaths config ?s0] u
    by simp
  have blame: "\<And>e. Log Err ''Media Shuttle upload failed:'' (Some (AnExn e))
                 \<in> set (events_of (uploadToMediaShuttle E tempFilePaths config) ?s0)
               \<Longrightarrow> r = failure_result e"
    using uploadToMediaShuttle_failure_logged[of _ E tempFilePaths config ?s0] u by simp
  show ?thesis
  proof (cases "success r")
    case True
    with u t blame show ?thesis
      by (intro exI[of _ r]) (auto simp: upload_batch_def batch_results_def io_bind_def
            logger_log_def emit_def io_return_def)
  next
    case False
    with u t blame show ?thesis
      by (intro exI[of _ r]) (auto simp: upload_batch_def batch_results_def io_bind_def
            logger_log_def logger_error1_def emit_def io_return_def)
  qed
qed


lemma upload_staged_run:
  "\<exists>staged tempFilePaths s1 rs s2 es.
     stageFiles E reportFiles [] s = (Ok (staged, tempFilePaths), s1)
     \<and> upload_staged E reportFiles config s = (Ok rs, s2)
     \<and> trace s2 = trace s @ es
     \<and> (case staged of
           Throw e \<Rightarrow>
             rs = map (failed_result (exn_message e)) reportFiles \<and> list_all ordinary es
             \<and> s2 = snd (cleanupTempFiles E tempFilePaths
                           (s1\<lparr>trace := trace s1 @
                               [Log Err (''[MAYO] Failed to upload files: '' @ exn_message e) None]\<rparr>))
         | Ok u \<Rightarrow>
             (\<exists>r. rs = batch_results r reportFiles
                \<and> (\<forall>e. Log Err ''Media Shuttle upload failed:'' (Some (AnExn e)) \<in> set es
                       \<longrightarrow> r = failure_result e)))"
proof -
  have not_ordinary: "\<And>es e. list_all ordinary es
      \<Longrightarrow> Log Err ''Media Shuttle upload failed:'' (Some (AnExn e)) \<notin> set es"
    by (auto simp: list_all_iff)
  from stageFiles_run[of E reportFiles "[]" s]
  obtain staged tps s1 es1 where st:
    "stageFiles E reportFiles [] s = (Ok (staged, tps), s1)"
    "trace s1 = trace s @ es1" "list_all ordinary es1"
    by blast
  show ?thesis
  proof (cases staged)
    case (Throw e)
    let ?s1' = "s1\<lparr>trace := trace s1 @
                  [Log Err (''[MAYO] Failed to upload files: '' @ exn_message e) None]\<rparr>"
    from cleanupTempFiles_run[of E tps ?s1']
    obtain s2 es2 where c: "cleanupTempFiles E tps ?s1' = (Ok (), s2)"
      "trace s2 = trace ?s1' @ es2" "list_all ordinary es2" by blast
    from st(1) Throw c(1)
    have u: "upload_staged E reportFiles config s
               = (Ok (map (failed_result (exn_message e)) reportFiles), s2)"
      by (simp add: upload_staged_def io_bind_def try_finally_def try_catch_def io_throw_def
          logger_error1_def emit_def io_return_def)
    from st c have t: "trace s2
        = trace s @ (es1 @ Log Err (''[MAYO] Failed to upload files: '' @ exn_message e) None # es2)"
      by simp
    from st(3) c(3) have o: "list_all ordinary
        (es1 @ Log Err (''[MAYO] Failed to upload files: '' @ exn_message e) None # es2)"
      by simp
    from st(1) u t o Throw c(1) show ?thesis
      by (intro exI[of _ staged] exI[of _ tps] exI[of _ s1]
            exI[of _ "map (failed_result (exn_message e)) reportFiles"] exI[of _ s2]
            exI[of _ "es1 @ Log Err (''[MAYO] Failed to upload files: '' @ exn_message e) None # es2"])
         simp
  next
    case (Ok u)
    from upload_batch_run[of E reportFiles tps config s1]
    obtain r s1' esb where b:
      "upload_batch E reportFiles tps config s1 = (Ok (batch_results r reportFiles), s1')"
      "trace s1' = trace s1 @ esb"
      "\<forall>e. Log Err ''Media Shuttle upload failed:'' (Some (AnExn e)) \<in> set esb
            \<longrightarrow> r = failure_result e"
      by blast
    from cleanupTempFiles_run[of E tps s1']
    obtain s2 es2 where c: "cleanupTempFiles E tps s1' = (Ok (), s2)"
      "trace s2 = trace s1' @ es2" "list_all ordinary es2" by blast
    from st(1) Ok b(1) c(1)
    have up: "upload_staged E reportFiles config s = (Ok (batch_results r reportFiles), s2)"
      by (simp add: upload_staged_def io_bind_def try_finally_def try_catch_def)
    from st b c have t: "trace s2 = trace s @ (es1 @ esb @ es2)" by simp
    have blame: "\<forall>e. Log Err ''Media Shuttle upload failed:'' (Some (AnExn e))
                     \<in> set (es1 @ esb @ es2) \<longrightarrow> r = failure_result e"
      using b(3) not_ordinary[OF st(3)] not_ordinary[OF c(3)] by auto
    from st(1) up t blame Ok show ?thesis
      by (intro exI[of _ staged] exI[of _ tps] exI[of _ s1]
            exI[of _ "batch_results r reportFiles"] exI[of _ s2] exI[of _ "es1 @ esb @ es2"])
         auto
  qed
qed

lemma prelude_events_quiet:
  "list_all ordinary (prelude_events files)"
  "list_all (\<lambda>ev. \<forall>c. ev \<noteq> Ext c) (prelude_events files)"
  by (simp_all add: prelude_events_def)

lemma io_bind_emit: "io_bind (emit ev) f s = f () (s\<lparr>trace := trace s @ [ev]\<rparr>)"
  by (simp add: io_bind_def emit_def)

lemma io_bind_logger_log:
  "io_bind (logger_log msg) f s = f () (s\<lparr>trace := trace s @ [Log Info msg None]\<rparr>)"
  by (simp add: logger_log_def io_bind_emit)

lemma io_bind_return: "io_bind (io_return a) f s = f a s"
  by (simp add: io_bind_def io_return_def)

lemma io_bind_assoc: "io_bind (io_bind m f) g = io_bind m (\<lambda>a. io_bind (f a) g)"
  by (rule ext) (simp add: io_bind_def split: prod.splits outcome.splits)

lemma upload_no_reports:
  assumes "filter is_report files = []"
  shows "upload E files s
           = (Ok (map skipped_result files), s\<lparr>trace := trace s @ prelude_events files\<rparr>)"
proof -
  from assms have "\<forall>x\<in>set files. \<not> is_report x" by (simp add: filter_empty_conv)
  then have all: "filter (\<lambda>file. \<not> is_report file) files = files" by simp
  from assms all show ?thesis
    by (simp add: upload_def Let_def prelude_events_def io_bind_assoc io_bind_emit
        io_bind_logger_log io_bind_return io_return_def)
qed

lemma upload_with_reports:
  assumes "filter is_report files \<noteq> []"
  shows "upload E files s
           = io_bind (getMediaShuttleConfig E) (\<lambda>mediaShuttleConfig.
             io_bind (upload_staged E (filter is_report files) mediaShuttleConfig) (\<lambda>results0.
             io_bind
               (logger_log
                  (upload_summary files (filter is_report files)
                     (filter (\<lambda>file. \<not> is_report file) files)
                     (results0 @ map skipped_result (filter (\<lambda>file. \<not> is_report file) files))))
               (\<lambda>_. io_return
                      (results0 @ map skipped_result (filter (\<lambda>file. \<not> is_report file) files)))))
             (s\<lparr>trace := trace s @ prelude_events files\<rparr>)"
  using assms
  by (simp add: upload_def Let_def prelude_events_def io_bind_assoc io_bind_emit
      io_bind_logger_log io_bind_return)

lemma upload_without_config:
  assumes "filter is_report files \<noteq> []" and "configService_get E = None"
  shows "upload E files s
           = (Throw (Error ''Media Shuttle configuration not found''),
              s\<lparr>trace := trace s @ prelude_events files\<rparr>)"
  by (simp add: upload_with_reports[OF assms(1)] getMediaShuttleConfig_def assms(2)
      io_bind_def io_throw_def)

lemma upload_with_config:
  assumes "filter is_report files \<noteq> []" and "configService_get E = Some c"
    and "upload_staged E (filter is_report files) (config_of c)
           (s\<lparr>trace := trace s @ prelude_events files\<rparr>) = (Ok rs, s2)"
  shows "upload E files s
           = (Ok (rs @ map skipped_result (filter (\<lambda>file. \<not> is_report file) files)),
              s2\<lparr>trace := trace s2 @
                   [Log Info (upload_summary files (filter is_report files)
                                (filter (\<lambda>file. \<not> is_report file) files)
                                (rs @ map skipped_result (filter (\<lambda>file. \<not> is_report file) files)))
                      None]\<rparr>)"
proof -
  have "getMediaShuttleConfig E (s\<lparr>trace := trace s @ prelude_events files\<rparr>)
          = (Ok (config_of c), s\<lparr>trace := trace s @ prelude_events files\<rparr>)"
    by (simp add: getMediaShuttleConfig_def assms(2) io_return_def config_of_def)
  with assms(3) show ?thesis
    by (simp add: upload_with_reports[OF assms(1)] io_bind_def io_return_def logger_log_def
        emit_def)
qed


lemma example_files_simps [simp]:
  "fileName example_report = ''x_Report.docx''" "data example_report = Some [1, 2, 3]"
  "fileName example_notes = ''notes.txt''" "data example_notes = Some [4, 5]"
  "is_report example_report" "\<not> is_report example_notes"
  by (simp_all add: example_report_def example_notes_def is_report_def endsWith_def)

lemma tmp_path_example: "path_join [''/tmp'', ''x_Report.docx''] = ''/tmp/x_Report.docx''"
  by (simp add: path_join_def path_normalize_def normalizeString_def norm_step_def)

lemma login_failing_env_more [simp]:
  "configService_get login_failing_env = Some example_settings"
  "os_tmpdir login_failing_env = ''/tmp''"
  by (simp_all add: login_failing_env_def)

lemmas coordinator_defs =
  upload_def upload_staged_def upload_batch_def getMediaShuttleConfig_def tempFilePath_def
  cleanupTempFile_def
  upload_summary_def error_or_default_def failed_result_def skipped_result_def uploaded_result_def


lemma upload_run:
  assumes "filter is_report files \<noteq> []" and "configService_get E = Some c"
  shows "\<exists>staged tempFilePaths s1 rs s2 es.
     stageFiles E (filter is_report files) [] (s\<lparr>trace := trace s @ prelude_events files\<rparr>)
       = (Ok (staged, tempFilePaths), s1)
     \<and> upload E files s
         = (Ok (rs @ map skipped_result (filter (\<lambda>file. \<not> is_report file) files)),
            s2\<lparr>trace := trace s2 @
                 [Log Info (upload_summary files (filter is_report files)
                              (filter (\<lambda>file. \<not> is_report file) files)
                              (rs @ map skipped_result (filter (\<lambda>file. \<not> is_report file) files)))
                    None]\<rparr>)
     \<and> trace s2 = trace s @ prelude_events files @ es
     \<and> (case staged of
           Throw e \<Rightarrow>
             rs = map (failed_result (exn_message e)) (filter is_report files)
             \<and> list_all ordinary es
             \<and> s2 = snd (cleanupTempFiles E tempFilePaths
                           (s1\<lparr>trace := trace s1 @
                               [Log Err (''[MAYO] Failed to upload files: '' @ exn_message e) None]\<rparr>))
         | Ok u \<Rightarrow>
             (\<exists>r. rs = batch_results r (filter is_report files)
                \<and> (\<forall>e. Log Err ''Media Shuttle upload failed:'' (Some (AnExn e)) \<in> set es
                       \<longrightarrow> r = failure_result e)))"
proof -
  let ?s' = "s\<lparr>trace := trace s @ prelude_events files\<rparr>"
  from upload_staged_run[of E "filter is_report files" ?s' "config_of c"]
  obtain staged tps s1 rs s2 es where
    st: "stageFiles E (filter is_report files) [] ?s' = (Ok (staged, tps), s1)"
    and up: "upload_staged E (filter is_report files) (config_of c) ?s' = (Ok rs, s2)"
    and tr: "trace s2 = trace ?s' @ es"
    and sh: "case staged of
           Throw e \<Rightarrow>
             rs = map (failed_result (exn_message e)) (filter is_report files)
             \<and> list_all ordinary es
             \<and> s2 = snd (cleanupTempFiles E tps
                           (s1\<lparr>trace := trace s1 @
                               [Log Err (''[MAYO] Failed to upload files: '' @ exn_message e) None]\<rparr>))
         | Ok u \<Rightarrow>
             (\<exists>r. rs = batch_results r (filter is_report files)
                \<and> (\<forall>e. Log Err ''Media Shuttle upload failed:'' (Some (AnExn e)) \<in> set es
                       \<longrightarrow> r = failure_result e))"
    by (elim exE conjE) (rule that)
  from tr have tr': "trace s2 = trace s @ prelude_events files @ es" by simp
  from st upload_with_config[OF assms up] tr' sh show ?thesis
    by (intro exI[of _ staged] exI[of _ tps] exI[of _ s1] exI[of _ rs] exI[of _ s2] exI[of _ es])
       simp
qed

lemma batch_results_shape:
  "\<exists>g. batch_results r reportFiles = map g reportFiles
       \<and> (g = uploaded_result \<or> (\<exists>m. g = failed_result m))"
  by (auto simp: batch_results_def)

lemma upload_results_shape:
  assumes "configService_get E \<noteq> None \<or> filter is_report files = []"
  shows "\<exists>g. fst (upload E files s)
              = Ok (map g (filter is_report files)
                    @ map skipped_result (filter (\<lambda>file. \<not> is_report file) files))
           \<and> (g = uploaded_result \<or> (\<exists>m. g = failed_result m))"
proof (cases "filter is_report files = []")
  case True
  then have "\<forall>x\<in>set files. \<not> is_report x" by (simp add: filter_empty_conv)
  then have "filter (\<lambda>file. \<not> is_report file) files = files" by simp
  with True upload_no_reports[OF True, of E s] show ?thesis by auto
next
  case False
  with assms obtain c where c: "configService_get E = Some c" by auto
  from upload_run[OF False c, of s]
  obtain staged tps s1 rs s2 es where
    "stageFiles E (filter is_report files) [] (s\<lparr>trace := trace s @ prelude_events files\<rparr>)
       = (Ok (staged, tps), s1)"
    and u: "upload E files s
         = (Ok (rs @ map skipped_result (filter (\<lambda>file. \<not> is_report file) files)),
            s2\<lparr>trace := trace s2 @
                 [Log Info (upload_summary files (filter is_report files)
                              (filter (\<lambda>file. \<not> is_report file) files)
                              (rs @ map skipped_result (filter (\<lambda>file. \<not> is_report file) files)))
                    None]\<rparr>)"
    and "trace s2 = trace s @ prelude_events files @ es"
    and sh: "case staged of
           Throw e \<Rightarrow>
             rs = map (failed_result (exn_message e)) (filter is_report files)
             \<and> list_all ordinary es
             \<and> s2 = snd (cleanupTempFiles E tps
                           (s1\<lparr>trace := trace s1 @
                               [Log Err (''[MAYO] Failed to upload files: '' @ exn_message e) None]\<rparr>))
         | Ok u \<Rightarrow>
             (\<exists>r. rs = batch_results r (filter is_report files)
                \<and> (\<forall>e. Log Err ''Media Shuttle upload failed:'' (Some (AnExn e)) \<in> set es
                       \<longrightarrow> r = failure_result e))"
    by (elim exE conjE) (rule that)
  from sh batch_results_shape obtain g where
    "rs = map g (filter is_report files)" "g = uploaded_result \<or> (\<exists>m. g = failed_result m)"
    by (cases staged) fastforce+
  with u show ?thesis by auto
qed

lemma mset_partition_filter:
  "mset (map f (filter P xs)) + mset (map f (filter (\<lambda>x. \<not> P x) xs)) = mset (map f xs)"
  by (induction xs) auto

section \<open>One result per input file\<close>

text \<open>
  C1, as amended.  Whenever the configuration \<^verbatim>\<open>mediaShuttle\<close> is present or no input
  file is eligible, \<open>upload\<close> returns exactly one result per input file: as many results
  as files, the file names of the results being those of the eligible files, in input
  order, followed by those of the skipped files, in input order; the results of the
  skipped files are the skipped-success results.  When an eligible file is present and
  the configuration is missing, \<open>upload\<close> throws
  \<^verbatim>\<open>Media Shuttle configuration not found\<close> and returns no result.
\<close>

theorem upload_one_result_per_file:
  "(configService_get E \<noteq> None \<or> filter is_report files = [] \<longrightarrow>
      (\<exists>rs. fst (upload E files s) = Ok rs
         \<and> length rs = length files
         \<and> mset (map r_fileName rs) = mset (map fileName files)
         \<and> map r_fileName rs
             = map fileName (filter is_report files)
               @ map fileName (filter (\<lambda>file. \<not> is_report file) files)
         \<and> drop (length (filter is_report files)) rs
             = map skipped_result (filter (\<lambda>file. \<not> is_report file) files)))
   \<and> (configService_get E = None \<and> filter is_report files \<noteq> [] \<longrightarrow>
        fst (upload E files s) = Throw (Error ''Media Shuttle configuration not found''))"
proof (intro conjI impI)
  assume a: "configService_get E \<noteq> None \<or> filter is_report files = []"
  from upload_results_shape[OF a, of s] obtain g where
    u: "fst (upload E files s)
              = Ok (map g (filter is_report files)
                    @ map skipped_result (filter (\<lambda>file. \<not> is_report file) files))"
    and g: "g = uploaded_result \<or> (\<exists>m. g = failed_result m)"
    by blast
  from g have n: "\<And>f. r_fileName (g f) = fileName f"
    by (auto simp: uploaded_result_def failed_result_def)
  have k: "\<And>f. r_fileName (skipped_result f) = fileName f"
    by (simp add: skipped_result_def)
  let ?rs = "map g (filter is_report files)
             @ map skipped_result (filter (\<lambda>file. \<not> is_report file) files)"
  have names: "map r_fileName ?rs
      = map fileName (filter is_report files)
        @ map fileName (filter (\<lambda>file. \<not> is_report file) files)"
    by (simp add: n k)
  have len: "length ?rs = length files"
    by (simp add: sum_length_filter_compl)
  have ms: "mset (map r_fileName ?rs) = mset (map fileName files)"
    unfolding names mset_append by (rule mset_partition_filter)
  have dr: "drop (length (filter is_report files)) ?rs
      = map skipped_result (filter (\<lambda>file. \<not> is_report file) files)"
    by simp
  from u len ms names dr
  show "\<exists>rs. fst (upload E files s) = Ok rs
         \<and> length rs = length files
         \<and> mset (map r_fileName rs) = mset (map fileName files)
         \<and> map r_fileName rs
             = map fileName (filter is_report files)
               @ map fileName (filter (\<lambda>file. \<not> is_report file) files)
         \<and> drop (length (filter is_report files)) rs
             = map skipped_result (filter (\<lambda>file. \<not> is_report file) files)"
    by (intro exI[of _ ?rs] conjI)
next
  assume "configService_get E = None \<and> filter is_report files \<noteq> []"
  then show "fst (upload E files s) = Throw (Error ''Media Shuttle configuration not found'')"
    by (simp add: upload_without_config)
qed

lemma unconfigured_env_simps [simp]:
  "configService_get unconfigured_env = None"
  by (simp add: unconfigured_env_def)

theorem upload_one_result_per_file_counterexample:
  "fst (upload unconfigured_env [example_report] example_state)
     = Throw (Error ''Media Shuttle configuration not found'')"
  by (simp add: upload_without_config)

theorem upload_one_result_per_file_witness:
  "configService_get example_env \<noteq> None
   \<and> (\<exists>rs. fst (upload example_env [example_report, example_notes] example_state) = Ok rs
          \<and> map r_fileName rs = [''x_Report.docx'', ''notes.txt''])
   \<and> configService_get unconfigured_env = None
   \<and> filter is_report [example_notes, example_report] \<noteq> []
   \<and> fst (upload unconfigured_env [example_notes, example_report] example_state)
       = Throw (Error ''Media Shuttle configuration not found'')"
  using upload_one_result_per_file[of example_env "[example_report, example_notes]" example_state]
    upload_one_result_per_file[of unconfigured_env "[example_notes, example_report]" example_state]
  by auto


section \<open>Skipped files\<close>

text \<open>
  C2, as amended.  Whenever \<open>upload\<close> returns, which it does unless an eligible file is
  present and the configuration is missing, every input file whose name does not end in
  \<^verbatim>\<open>_Report.docx\<close> has the result \<^verbatim>\<open>{success: true, skipped: true}\<close>, whatever the
  portal does.  When no file is eligible, \<open>upload\<close> returns all inputs as skipped-success
  and makes no call that leaves the service: no browser is launched, the session handles
  and the file system stay as they are.
\<close>

theorem skipped_files_succeed:
  "(configService_get E \<noteq> None \<or> filter is_report files = [] \<longrightarrow>
      (\<exists>rs. fst (upload E files s) = Ok rs
         \<and> (\<forall>file \<in> set files. \<not> is_report file \<longrightarrow> skipped_result file \<in> set rs)
         \<and> drop (length (filter is_report files)) rs
             = map skipped_result (filter (\<lambda>file. \<not> is_report file) files)))
   \<and> (filter is_report files = [] \<longrightarrow>
        fst (upload E files s) = Ok (map skipped_result files)
        \<and> list_all (\<lambda>ev. \<forall>c. ev \<noteq> Ext c) (events_of (upload E files) s)
        \<and> this_browser (snd (upload E files s)) = this_browser s
        \<and> this_context (snd (upload E files s)) = this_context s
        \<and> fs (snd (upload E files s)) = fs s)
   \<and> is_report file = endsWith (fileName file) ''_Report.docx''
   \<and> skipped_result file
       = \<lparr> r_fileName = fileName file, r_success = True, r_skipped = Some True,
           r_errorMessage = None \<rparr>"
proof (intro conjI impI)
  assume a: "configService_get E \<noteq> None \<or> filter is_report files = []"
  from upload_results_shape[OF a, of s] obtain g where
    u: "fst (upload E files s)
              = Ok (map g (filter is_report files)
                    @ map skipped_result (filter (\<lambda>file. \<not> is_report file) files))"
    by blast
  let ?rs = "map g (filter is_report files)
             @ map skipped_result (filter (\<lambda>file. \<not> is_report file) files)"
  have "\<forall>file \<in> set files. \<not> is_report file \<longrightarrow> skipped_result file \<in> set ?rs" by auto
  moreover have "drop (length (filter is_report files)) ?rs
      = map skipped_result (filter (\<lambda>file. \<not> is_report file) files)" by simp
  ultimately show "\<exists>rs. fst (upload E files s) = Ok rs
         \<and> (\<forall>file \<in> set files. \<not> is_report file \<longrightarrow> skipped_result file \<in> set rs)
         \<and> drop (length (filter is_report files)) rs
             = map skipped_result (filter (\<lambda>file. \<not> is_report file) files)"
    using u by (intro exI[of _ ?rs] conjI)
next
  assume e: "filter is_report files = []"
  note u = upload_no_reports[OF e, of E s]
  show "fst (upload E files s) = Ok (map skipped_result files)" by (simp add: u)
  show "list_all (\<lambda>ev. \<forall>c. ev \<noteq> Ext c) (events_of (upload E files) s)"
    by (simp add: events_of_def u prelude_events_quiet)
  show "this_browser (snd (upload E files s)) = this_browser s" by (simp add: u)
  show "this_context (snd (upload E files s)) = this_context s" by (simp add: u)
  show "fs (snd (upload E files s)) = fs s" by (simp add: u)
next
  show "is_report file = endsWith (fileName file) ''_Report.docx''" by (simp add: is_report_def)
  show "skipped_result file
       = \<lparr> r_fileName = fileName file, r_success = True, r_skipped = Some True,
           r_errorMessage = None \<rparr>" by (simp add: skipped_result_def)
qed

theorem skipped_files_succeed_counterexample:
  "\<not> is_report example_notes
   \<and> fst (upload unconfigured_env [example_report, example_notes] example_state)
       = Throw (Error ''Media Shuttle configuration not found'')"
  by (simp add: upload_without_config)

theorem skipped_files_succeed_witness:
  "filter is_report [example_notes] = []
   \<and> fst (upload unconfigured_env [example_notes] example_state) = Ok [skipped_result example_notes]
   \<and> events_of (upload unconfigured_env [example_notes]) example_state
       = prelude_events [example_notes]
   \<and> configService_get login_failing_env \<noteq> None
   \<and> (\<exists>rs. fst (upload login_failing_env [example_report, example_notes] example_state) = Ok rs
          \<and> skipped_result example_notes \<in> set rs)"
proof -
  have e: "filter is_report [example_notes] = []" by simp
  from skipped_files_succeed[of unconfigured_env "[example_notes]" example_state,
         THEN conjunct2, THEN conjunct1] e
  have a: "fst (upload unconfigured_env [example_notes] example_state)
             = Ok [skipped_result example_notes]"
    by simp
  have b: "events_of (upload unconfigured_env [example_notes]) example_state
       = prelude_events [example_notes]"
    by (simp add: events_of_def upload_no_reports[OF e])
  from skipped_files_succeed
         [of login_failing_env "[example_report, example_notes]" example_state, THEN conjunct1]
  have c: "\<exists>rs. fst (upload login_failing_env [example_report, example_notes] example_state) = Ok rs
          \<and> skipped_result example_notes \<in> set rs"
    by auto
  from e a b c show ?thesis by simp
qed

section \<open>A failed attempt fails every eligible file\<close>

text \<open>
  C3.  The attempt fails exactly when the \<^verbatim>\<open>catch\<close> block of \<open>uploadToMediaShuttle\<close>
  runs, which logs \<^verbatim>\<open>Media Shuttle upload failed:\<close> with the error \<open>e\<close> of the failing
  step (session, login, interaction or monitoring).  In every run of \<open>upload\<close> in which
  that happens, the eligible batch is not empty, every eligible file gets the same
  result \<^verbatim>\<open>{success: false, errorMessage: m}\<close>, where \<open>m\<close> is the message of \<open>e\<close>
  (\<^verbatim>\<open>Batch upload failed\<close> if that message is empty), and every skipped file still gets
  \<^verbatim>\<open>{success: true, skipped: true}\<close>.
\<close>

theorem failed_attempt_fails_every_eligible_file:
  assumes "Log Err ''Media Shuttle upload failed:'' (Some (AnExn e))
             \<in> set (events_of (upload E files) s)"
  shows "filter is_report files \<noteq> []
     \<and> fst (upload E files s)
         = Ok (map (\<lambda>file. \<lparr> r_fileName = fileName file, r_success = False, r_skipped = None,
                            r_errorMessage = Some (if exn_message e = [] then ''Batch upload failed''
                                                   else exn_message e) \<rparr>)
                 (filter is_report files)
               @ map (\<lambda>file. \<lparr> r_fileName = fileName file, r_success = True,
                              r_skipped = Some True, r_errorMessage = None \<rparr>)
                   (filter (\<lambda>file. \<not> is_report file) files))
     \<and> is_report file = endsWith (fileName file) ''_Report.docx''"
proof -
  have not_ordinary: "\<And>es. list_all ordinary es
      \<Longrightarrow> Log Err ''Media Shuttle upload failed:'' (Some (AnExn e)) \<notin> set es"
    by (auto simp: list_all_iff)
  note quiet = not_ordinary[OF prelude_events_quiet(1), of files]
  have nonempty: "filter is_report files \<noteq> []"
  proof
    assume "filter is_report files = []"
    from upload_no_reports[OF this, of E s]
    have "events_of (upload E files) s = prelude_events files" by (simp add: events_of_def)
    with assms quiet show False by simp
  qed
  have "configService_get E \<noteq> None"
  proof
    assume "configService_get E = None"
    from upload_without_config[OF nonempty this, of s]
    have "events_of (upload E files) s = prelude_events files" by (simp add: events_of_def)
    with assms quiet show False by simp
  qed
  then obtain c where c: "configService_get E = Some c" by auto
  from upload_run[OF nonempty c, of s]
  obtain staged tps s1 rs s2 es where
    "stageFiles E (filter is_report files) [] (s\<lparr>trace := trace s @ prelude_events files\<rparr>)
       = (Ok (staged, tps), s1)"
    and u: "upload E files s
         = (Ok (rs @ map skipped_result (filter (\<lambda>file. \<not> is_report file) files)),
            s2\<lparr>trace := trace s2 @
                 [Log Info (upload_summary files (filter is_report files)
                              (filter (\<lambda>file. \<not> is_report file) files)
                              (rs @ map skipped_result (filter (\<lambda>file. \<not> is_report file) files)))
                    None]\<rparr>)"
    and tr: "trace s2 = trace s @ prelude_events files @ es"
    and sh: "case staged of
           Throw e \<Rightarrow>
             rs = map (failed_result (exn_message e)) (filter is_report files)
             \<and> list_all ordinary es
             \<and> s2 = snd (cleanupTempFiles E tps
                           (s1\<lparr>trace := trace s1 @
                               [Log Err (''[MAYO] Failed to upload files: '' @ exn_message e) None]\<rparr>))
         | Ok u \<Rightarrow>
             (\<exists>r. rs = batch_results r (filter is_report files)
                \<and> (\<forall>e. Log Err ''Media Shuttle upload failed:'' (Some (AnExn e)) \<in> set es
                       \<longrightarrow> r = failure_result e))"
    by (elim exE conjE) (rule that)
  from u tr have "events_of (upload E files) s
      = prelude_events files @ es
        @ [Log Info (upload_summary files (filter is_report files)
                              (filter (\<lambda>file. \<not> is_report file) files)
                              (rs @ map skipped_result (filter (\<lambda>file. \<not> is_report file) files)))
                    None]"
    by (simp add: events_of_def)
  with assms quiet have in_es: "Log Err ''Media Shuttle upload failed:'' (Some (AnExn e)) \<in> set es"
    by auto
  have "rs = map (failed_result (error_or_default (Some (exn_message e)))) (filter is_report files)"
  proof (cases staged)
    case (Throw e')
    with sh in_es not_ordinary[of es] show ?thesis by simp
  next
    case (Ok v)
    with sh in_es obtain r where "rs = batch_results r (filter is_report files)"
      "r = failure_result e" by auto
    then show ?thesis by (simp add: batch_results_def failure_result_def)
  qed
  with u nonempty show ?thesis
    by (simp add: failed_result_def skipped_result_def error_or_default_def is_report_def)
qed

lemma upload_login_failure_events:
  "Log Err ''Media Shuttle upload failed:''
      (Some (AnExn (Error ''Login failed: Timeout 30000ms exceeded.'')))
     \<in> set (events_of (upload login_failing_env [example_report, example_notes]) example_state)"
  by (simp add: events_of_def run_defs service_defs coordinator_defs tmp_path_example
      path_basename_def show_nat.simps digit_char_def Let_def)

theorem failed_attempt_fails_every_eligible_file_witness:
  "Log Err ''Media Shuttle upload failed:''
      (Some (AnExn (Error ''Login failed: Timeout 30000ms exceeded.'')))
     \<in> set (events_of (upload login_failing_env [example_report, example_notes]) example_state)
   \<and> fst (upload login_failing_env [example_report, example_notes] example_state)
       = Ok [\<lparr> r_fileName = ''x_Report.docx'', r_success = False, r_skipped = None,
               r_errorMessage = Some ''Login failed: Timeout 30000ms exceeded.'' \<rparr>,
             \<lparr> r_fileName = ''notes.txt'', r_success = True, r_skipped = Some True,
               r_errorMessage = None \<rparr>]"
  using failed_attempt_fails_every_eligible_file[OF upload_login_failure_events,
      THEN conjunct2, THEN conjunct1]
    upload_login_failure_events
  by simp

section \<open>Staging\<close>

lemma file_event_simps [simp]:
  "file_event (Enter n) = (n = ''upload'')"
  "file_event (Log l m a) = (a = None)"
  "file_event (Ext (WriteFileSync p d))"
  "file_event (Ext (UnlinkSync p))"
  "\<not> file_event (Ext (ChromiumLaunch h args))"
  by (simp_all add: file_event_def)

lemma file_event_Ext:
  "file_event (Ext c) \<Longrightarrow> (\<exists>p d. c = WriteFileSync p d) \<or> (\<exists>p. c = UnlinkSync p)"
  by (cases c) (simp_all add: file_event_def)










lemma example_more_simps [simp]:
  "fileName example_empty_report = ''y_Report.docx''" "data example_empty_report = None"
  "is_report example_empty_report"
  "configService_get unlink_failing_env = Some example_settings"
  "os_tmpdir unlink_failing_env = ''/tmp''"
  "fails unlink_failing_env =
     (\<lambda>c. if c = UnlinkSync ''/tmp/x_Report.docx''
          then Some (Error ''EPERM: operation not permitted, unlink'') else None)"
  by (simp_all add: example_empty_report_def unlink_failing_env_def is_report_def endsWith_def)








text \<open>Deletion is best effort: a staged file whose \<^verbatim>\<open>unlinkSync\<close> fails stays.\<close>

lemma upload_unlink_failure:
  "fst (upload unlink_failing_env [example_report, example_empty_report] example_state)
     = Ok [failed_result ''File data is missing for y_Report.docx'' example_report,
           failed_result ''File data is missing for y_Report.docx'' example_empty_report]
   \<and> fs (snd (upload unlink_failing_env [example_report, example_empty_report] example_state))
        ''/tmp/x_Report.docx'' = Some (File [1, 2, 3])"
  by (simp add: run_defs coordinator_defs tmp_path_example path_basename_def
      show_nat.simps digit_char_def Let_def)

lemma write_failing_simps [simp]:
  "fileName example_report_z = ''z_Report.docx''" "data example_report_z = Some [7]"
  "is_report example_report_z"
  "configService_get write_failing_env = Some example_settings"
  "os_tmpdir write_failing_env = ''/tmp''"
  "fails write_failing_env =
     (\<lambda>c. if c = WriteFileSync ''/tmp/z_Report.docx'' [7]
          then Some (Error ''ENOSPC: no space left on device, write'') else None)"
  by (simp_all add: example_report_z_def write_failing_env_def is_report_def endsWith_def)

lemma tmp_paths_example [simp]:
  "tempFilePath example_env example_report = ''/tmp/x_Report.docx''"
  "tempFilePath example_env example_empty_report = ''/tmp/y_Report.docx''"
  "tempFilePath write_failing_env example_report = ''/tmp/x_Report.docx''"
  "tempFilePath write_failing_env example_report_z = ''/tmp/z_Report.docx''"
  "tempFilePath write_failing_env example_empty_report = ''/tmp/y_Report.docx''"
  by (simp_all add: tempFilePath_def path_join_def path_normalize_def normalizeString_def
      norm_step_def)



section \<open>Staged paths\<close>

lemma split_sep_nonempty: "split_sep s \<noteq> []"
  by (induction s) (auto split: list.splits)

lemma split_sep_simple: "CHR ''/'' \<notin> set n \<Longrightarrow> split_sep n = [n]"
  by (induction n) auto

lemma split_sep_append: "split_sep (xs @ CHR ''/'' # ys) = split_sep xs @ split_sep ys"
proof (induction xs)
  case Nil
  then show ?case by simp
next
  case (Cons c cs)
  from split_sep_nonempty[of cs] obtain seg segs where "split_sep cs = seg # segs"
    by (cases "split_sep cs") auto
  with Cons show ?case by simp
qed

lemma join_with_snoc:
  "join_with sep (xs @ [x]) = (if xs = [] then x else join_with sep xs @ sep @ x)"
proof (induction xs)
  case Nil
  then show ?case by simp
next
  case (Cons y ys)
  then show ?case by (cases ys) auto
qed

lemma startsWith_length: "startsWith s p \<Longrightarrow> length p \<le> length s"
  by (induction s p rule: startsWith.induct) auto

lemma report_name_proper:
  assumes "endsWith n ''_Report.docx''"
  shows "n \<noteq> [] \<and> n \<noteq> ''.'' \<and> n \<noteq> ''..''"
proof -
  from startsWith_length[OF assms[unfolded endsWith_def]] have l: "12 \<le> length n" by simp
  show ?thesis
  proof (intro conjI notI)
    assume "n = []"
    with l show False by simp
  next
    assume "n = ''.''"
    with l show False by simp
  next
    assume "n = ''..''"
    with l show False by simp
  qed
qed

lemma normalizeString_snoc:
  assumes "CHR ''/'' \<notin> set n" and "n \<noteq> []" and "n \<noteq> ''.''" and "n \<noteq> ''..''"
  shows "normalizeString (dir @ CHR ''/'' # n) allow
           = (if foldl (norm_step allow) [] (split_sep dir) = [] then n
              else join_with ''/'' (foldl (norm_step allow) [] (split_sep dir)) @ ''/'' @ n)"
proof -
  from assms have step: "norm_step allow (foldl (norm_step allow) [] (split_sep dir)) n
      = foldl (norm_step allow) [] (split_sep dir) @ [n]"
    by (simp add: norm_step_def)
  show ?thesis
    by (simp add: normalizeString_def split_sep_append split_sep_simple[OF assms(1)] step
        join_with_snoc)
qed

lemma path_join_simple:
  assumes "CHR ''/'' \<notin> set n" and "n \<noteq> []" and "n \<noteq> ''.''" and "n \<noteq> ''..''"
  shows "path_join [dir, n] = path_prefix dir @ n"
proof (cases "dir = []")
  case True
  from assms(1,2) have h: "hd n \<noteq> CHR ''/''" "last n \<noteq> CHR ''/''"
    by (metis hd_in_set, metis last_in_set)
  from assms have "norm_step True [] n = [n]" by (simp add: norm_step_def)
  with assms(2) h True show ?thesis
    by (simp add: path_join_def path_normalize_def normalizeString_def path_prefix_def
        split_sep_simple[OF assms(1)] Let_def)
next
  case False
  from False have hd: "hd (dir @ CHR ''/'' # n) = hd dir" by simp
  from assms(1,2) have "last n \<noteq> CHR ''/''" by (metis last_in_set)
  with assms(2) have last: "last (dir @ CHR ''/'' # n) \<noteq> CHR ''/''" by simp
  note norm = normalizeString_snoc[OF assms, of dir]
  from assms(2) have ne: "\<And>allow. normalizeString (dir @ CHR ''/'' # n) allow \<noteq> []"
    by (simp add: norm)
  from False assms(2) have j: "path_join [dir, n] = path_normalize (dir @ CHR ''/'' # n)"
    by (simp add: path_join_def)
  show ?thesis
  proof (cases "hd dir = CHR ''/''")
    case True
    with ne[of False] last hd have "path_normalize (dir @ CHR ''/'' # n)
        = ''/'' @ normalizeString (dir @ CHR ''/'' # n) False"
      by (simp add: path_normalize_def Let_def)
    with j True False show ?thesis
      by (simp add: norm path_prefix_def Let_def)
  next
    case abs: False
    with ne[of True] last hd have "path_normalize (dir @ CHR ''/'' # n)
        = normalizeString (dir @ CHR ''/'' # n) True"
      by (simp add: path_normalize_def Let_def)
    with j abs False show ?thesis
      by (simp add: norm path_prefix_def Let_def)
  qed
qed

lemma tempFilePath_report:
  assumes "is_report file" and "CHR ''/'' \<notin> set (fileName file)"
  shows "tempFilePath E file = path_prefix (os_tmpdir E) @ fileName file"
  using report_name_proper[OF assms(1)[unfolded is_report_def]] assms(2)
  by (simp add: tempFilePath_def path_join_simple)

lemma tempFilePath_inj:
  assumes "\<forall>file \<in> set files. is_report file \<and> CHR ''/'' \<notin> set (fileName file)"
  shows "distinct (map (tempFilePath E) files) = distinct (map fileName files)"
proof -
  have "map (tempFilePath E) files = map (\<lambda>n. path_prefix (os_tmpdir E) @ n) (map fileName files)"
    using assms by (simp add: tempFilePath_report)
  moreover have "inj (\<lambda>n. path_prefix (os_tmpdir E) @ n)" by (simp add: inj_def)
  ultimately show ?thesis by (simp add: distinct_map inj_on_def del: map_map)
qed

lemma stageFiles_paths:
  "stageFiles E files acc s = (Ok (Ok (), tps), s1) \<Longrightarrow> tps = acc @ map (tempFilePath E) files"
proof (induction files arbitrary: acc s)
  case Nil
  then show ?case by (simp add: io_return_def)
next
  case (Cons f rest)
  show ?case
  proof (cases "data f")
    case None
    with Cons.prems show ?thesis by (simp add: io_return_def)
  next
    case (Some d)
    obtain r s' where w: "writeFileSync E (tempFilePath E f) d s = (r, s')"
      by (cases "writeFileSync E (tempFilePath E f) d s")
    show ?thesis
    proof (cases r)
      case (Throw e)
      with Cons.prems Some w show ?thesis
        by (simp add: io_bind_def outcome_of_def io_return_def)
    next
      case (Ok u)
      with Cons.prems Some w
      have "stageFiles E rest (acc @ [tempFilePath E f])
              (s'\<lparr>trace := trace s' @ [Log Info (''[MAYO] Created temp file: '' @ fileName f) None]\<rparr>)
            = (Ok (Ok (), tps), s1)"
        by (simp add: io_bind_def outcome_of_def logger_log_def emit_def)
      from Cons.IH[OF this] show ?thesis by simp
    qed
  qed
qed


lemma find_snoc:
  "find P (xs @ [x]) = (case find P xs of None \<Rightarrow> (if P x then Some x else None) | Some y \<Rightarrow> Some y)"
  by (induction xs) auto

lemma stageFiles_last_write_wins:
  "stageFiles E files acc s = (Ok (Ok (), tps), s1) \<Longrightarrow>
     fs s1 p = (case find (\<lambda>file. tempFilePath E file = p) (rev files) of
                  None \<Rightarrow> fs s p
                | Some file \<Rightarrow> map_option File (data file))"
proof (induction files arbitrary: acc s)
  case Nil
  then show ?case by (simp add: io_return_def)
next
  case (Cons f rest)
  show ?case
  proof (cases "data f")
    case None
    with Cons.prems show ?thesis by (simp add: io_return_def)
  next
    case (Some d)
    obtain r s' where w: "writeFileSync E (tempFilePath E f) d s = (r, s')"
      by (cases "writeFileSync E (tempFilePath E f) d s")
    show ?thesis
    proof (cases r)
      case (Throw e)
      with Cons.prems Some w show ?thesis
        by (simp add: io_bind_def outcome_of_def io_return_def)
    next
      case (Ok u)
      with w have fs': "fs s' = (fs s)(tempFilePath E f \<mapsto> File d)"
        by (auto simp: writeFileSync_def ext_def io_bind_def emit_def settled_def io_return_def
            io_throw_def modify_fs_def split: option.splits)
      from Ok Cons.prems Some w
      have "stageFiles E rest (acc @ [tempFilePath E f])
              (s'\<lparr>trace := trace s' @ [Log Info (''[MAYO] Created temp file: '' @ fileName f) None]\<rparr>)
            = (Ok (Ok (), tps), s1)"
        by (simp add: io_bind_def outcome_of_def logger_log_def emit_def)
      from Cons.IH[OF this] fs' Some show ?thesis
        by (simp add: find_snoc split: option.splits)
    qed
  qed
qed

lemma find_distinct_member:
  assumes "x \<in> set xs" and "distinct (map g xs)"
  shows "find (\<lambda>y. g y = g x) xs = Some x"
  using assms
proof (induction xs)
  case Nil
  then show ?case by simp
next
  case (Cons a xs)
  then show ?case by (cases "a = x") (auto simp: image_iff)
qed

text \<open>
  C8, as amended.  The staged path of a file is
  \<^verbatim>\<open>path.join(os.tmpdir(), file.fileName)\<close>: it depends on the temporary directory and
  the file name only.  A successful staging yields these paths in order, and afterwards
  each staged path holds the content of the last file staged at it.  Eligible files
  whose names contain no separator have the same staged path exactly when they have the
  same name; so the staged paths of such a batch are pairwise distinct exactly when its
  file names are, and then each path holds its own file's content.  Two files of the
  same name, in one batch or in two invocations that share the temporary directory, are
  staged at one and the same path.
\<close>

theorem staged_path_follows_file_name:
  "tempFilePath E file = path_join [os_tmpdir E, fileName file]
   \<and> (os_tmpdir E = os_tmpdir E' \<and> fileName file = fileName file'
        \<longrightarrow> tempFilePath E file = tempFilePath E' file')
   \<and> (is_report file \<and> is_report file' \<and> CHR ''/'' \<notin> set (fileName file)
        \<and> CHR ''/'' \<notin> set (fileName file')
        \<longrightarrow> (tempFilePath E file = tempFilePath E file') = (fileName file = fileName file'))
   \<and> ((\<forall>f \<in> set files. is_report f \<and> CHR ''/'' \<notin> set (fileName f))
        \<longrightarrow> distinct (map (tempFilePath E) files) = distinct (map fileName files))
   \<and> (stageFiles E files [] s = (Ok (Ok (), tps), s1)
        \<longrightarrow> tps = map (tempFilePath E) files
          \<and> (\<forall>p. fs s1 p = (case find (\<lambda>f. tempFilePath E f = p) (rev files) of
                               None \<Rightarrow> fs s p
                             | Some f \<Rightarrow> map_option File (data f)))
          \<and> (distinct tps
               \<longrightarrow> (\<forall>f \<in> set files. fs s1 (tempFilePath E f) = map_option File (data f))))"
proof -
  have a: "tempFilePath E file = path_join [os_tmpdir E, fileName file]"
    by (simp add: tempFilePath_def)
  have b: "os_tmpdir E = os_tmpdir E' \<and> fileName file = fileName file'
        \<longrightarrow> tempFilePath E file = tempFilePath E' file'"
    by (simp add: tempFilePath_def)
  have c: "is_report file \<and> is_report file' \<and> CHR ''/'' \<notin> set (fileName file)
        \<and> CHR ''/'' \<notin> set (fileName file')
        \<longrightarrow> (tempFilePath E file = tempFilePath E file') = (fileName file = fileName file')"
    by (simp add: tempFilePath_report)
  have d: "(\<forall>f \<in> set files. is_report f \<and> CHR ''/'' \<notin> set (fileName f))
        \<longrightarrow> distinct (map (tempFilePath E) files) = distinct (map fileName files)"
    using tempFilePath_inj[of files E] by blast
  have e: "stageFiles E files [] s = (Ok (Ok (), tps), s1)
        \<longrightarrow> tps = map (tempFilePath E) files
          \<and> (\<forall>p. fs s1 p = (case find (\<lambda>f. tempFilePath E f = p) (rev files) of
                               None \<Rightarrow> fs s p
                             | Some f \<Rightarrow> map_option File (data f)))
          \<and> (distinct tps
               \<longrightarrow> (\<forall>f \<in> set files. fs s1 (tempFilePath E f) = map_option File (data f)))"
  proof
    assume st: "stageFiles E files [] s = (Ok (Ok (), tps), s1)"
    from stageFiles_paths[OF st] have tps: "tps = map (tempFilePath E) files" by simp
    note lw = stageFiles_last_write_wins[OF st]
    have own: "distinct tps
               \<longrightarrow> (\<forall>f \<in> set files. fs s1 (tempFilePath E f) = map_option File (data f))"
    proof (intro impI ballI)
      fix f
      assume dist: "distinct tps" and f: "f \<in> set files"
      from dist tps have "distinct (map (tempFilePath E) (rev files))"
        by (simp add: rev_map[symmetric])
      with f find_distinct_member[of f "rev files" "tempFilePath E"]
      have "find (\<lambda>y. tempFilePath E y = tempFilePath E f) (rev files) = Some f" by simp
      with lw[of "tempFilePath E f"]
      show "fs s1 (tempFilePath E f) = map_option File (data f)" by simp
    qed
    from tps lw own
    show "tps = map (tempFilePath E) files
          \<and> (\<forall>p. fs s1 p = (case find (\<lambda>f. tempFilePath E f = p) (rev files) of
                               None \<Rightarrow> fs s p
                             | Some f \<Rightarrow> map_option File (data f)))
          \<and> (distinct tps
               \<longrightarrow> (\<forall>f \<in> set files. fs s1 (tempFilePath E f) = map_option File (data f)))"
      by blast
  qed
  from a b c d e show ?thesis by blast
qed

lemma example_twin_simps [simp]:
  "fileName example_report_twin = ''x_Report.docx''" "data example_report_twin = Some [9]"
  "is_report example_report_twin" "example_report \<noteq> example_report_twin"
  by (simp_all add: example_report_twin_def example_report_def is_report_def endsWith_def)

theorem staged_paths_collide_counterexample:
  "is_report example_report \<and> is_report example_report_twin
   \<and> example_report \<noteq> example_report_twin
   \<and> tempFilePath example_env example_report = tempFilePath example_env example_report_twin
   \<and> fst (stageFiles example_env [example_report, example_report_twin] [] example_state)
       = Ok (Ok (), [''/tmp/x_Report.docx'', ''/tmp/x_Report.docx''])
   \<and> fs (snd (stageFiles example_env [example_report, example_report_twin] [] example_state))
        ''/tmp/x_Report.docx'' = Some (File [9])"
  by (simp add: run_defs tempFilePath_def tmp_path_example)

theorem staged_path_follows_file_name_witness:
  "is_report example_report \<and> is_report example_empty_report
   \<and> CHR ''/'' \<notin> set (fileName example_report)
   \<and> CHR ''/'' \<notin> set (fileName example_empty_report)
   \<and> tempFilePath example_env example_report \<noteq> tempFilePath example_env example_empty_report
   \<and> distinct (map (tempFilePath example_env) [example_report, example_empty_report])
   \<and> (\<exists>s1. stageFiles example_env [example_report] [] example_state
              = (Ok (Ok (), [tempFilePath example_env example_report]), s1)
          \<and> fs s1 (tempFilePath example_env example_report) = Some (File [1, 2, 3]))"
proof -
  have st: "\<exists>s1. stageFiles example_env [example_report] [] example_state
              = (Ok (Ok (), [tempFilePath example_env example_report]), s1)"
    by (simp add: run_defs)
  then obtain s1 where s1: "stageFiles example_env [example_report] [] example_state
              = (Ok (Ok (), [tempFilePath example_env example_report]), s1)" by blast
  from staged_path_follows_file_name
         [of example_env example_report example_env example_empty_report
             "[example_report]" example_state "[tempFilePath example_env example_report]" s1,
          THEN conjunct2, THEN conjunct2, THEN conjunct2, THEN conjunct2] s1
  have own: "fs s1 (tempFilePath example_env example_report) = Some (File [1, 2, 3])"
    by simp
  from staged_path_follows_file_name
         [of example_env example_report example_env example_empty_report,
          THEN conjunct2, THEN conjunct2, THEN conjunct1]
  have diff: "tempFilePath example_env example_report \<noteq> tempFilePath example_env example_empty_report"
    by simp
  from staged_path_follows_file_name
         [of example_env example_report example_env example_empty_report
             "[example_report, example_empty_report]",
          THEN conjunct2, THEN conjunct2, THEN conjunct2, THEN conjunct1]
  have dist: "distinct (map (tempFilePath example_env) [example_report, example_empty_report])"
    by simp
  from s1 own diff dist show ?thesis by auto
qed

end
